theory Spec2Isabelle
  imports Complex_Main "HOL-Library.Sublist" "HOL-Library.Char_ord" "HOL-Library.List_Lexorder"
begin

chapter \<open>The embedding of the code\<close>

section \<open>Embedding pipeline (generate_embeddings_for_chunks)\<close>

text \<open>
  An entry of the result list of \<^verbatim>\<open>generate_embeddings_for_chunks\<close>. The vector
  type is a parameter: the code never looks inside a vector.
\<close>

record 'v embedding_record =
  text_chunk :: string
  embedding :: "'v option"
  source_table :: string
  source_record_id :: string
  model_used :: string

text \<open>
  What one call of \<^verbatim>\<open>genai.embed_content\<close> does: it raises, or it returns a
  response whose key \<^verbatim>\<open>'embedding'\<close> is absent (\<open>None\<close>) or holds a list of vectors.
\<close>

datatype 'v embed_outcome = Raised | Response "'v list option"

text \<open>
  The environment of the call: the module constant \<^verbatim>\<open>GOOGLE_GEMINI_API_KEY\<close>,
  whether \<^verbatim>\<open>genai.configure\<close> returns, and the embedding capability. The capability
  gets the number of calls made before (it is an external service and may answer
  differently each time) and the batch.
\<close>

record 'v embed_env =
  api_key :: "string option"
  configure_ok :: bool
  embed_content :: "nat \<Rightarrow> string list \<Rightarrow> 'v embed_outcome"

definition batch_size :: nat where
  "batch_size = 100"

definition embedding_model :: string where
  "embedding_model = ''models/embedding-001''"

definition none_record :: "string \<Rightarrow> string \<Rightarrow> string \<Rightarrow> string \<Rightarrow> 'v embedding_record" where
  "none_record source_tab record_id model chunk =
     \<lparr>text_chunk = chunk, embedding = None, source_table = source_tab,
      source_record_id = record_id, model_used = model\<rparr>"

definition vector_record :: "string \<Rightarrow> string \<Rightarrow> string \<times> 'v \<Rightarrow> 'v embedding_record" where
  "vector_record source_tab record_id p =
     \<lparr>text_chunk = fst p, embedding = Some (snd p), source_table = source_tab,
      source_record_id = record_id, model_used = embedding_model\<rparr>"

text \<open>The body of the loop: the records one batch appends to \<^verbatim>\<open>results\<close>.\<close>

definition process_batch ::
  "string \<Rightarrow> string \<Rightarrow> string list \<Rightarrow> 'v embed_outcome \<Rightarrow> 'v embedding_record list" where
  "process_batch source_tab record_id batch outcome =
     (case outcome of
        Raised \<Rightarrow> map (none_record source_tab record_id embedding_model) batch
      | Response r \<Rightarrow>
          (let batch_embeddings = (case r of None \<Rightarrow> [] | Some vs \<Rightarrow> vs) in
           if length batch_embeddings = length batch
           then map (vector_record source_tab record_id) (zip batch batch_embeddings)
           else map (none_record source_tab record_id embedding_model) batch))"

text \<open>
  \<^verbatim>\<open>for i in range(0, len(text_chunks), batch_size)\<close>, with \<^verbatim>\<open>results\<close> as the
  accumulator. The call at offset \<open>i\<close> is call number \<open>i div batch_size\<close>.
\<close>

function embed_loop ::
  "(nat \<Rightarrow> string list \<Rightarrow> 'v embed_outcome) \<Rightarrow> string \<Rightarrow> string \<Rightarrow> string list \<Rightarrow> nat \<Rightarrow>
   'v embedding_record list \<Rightarrow> 'v embedding_record list" where
  "embed_loop call source_tab record_id text_chunks i results =
     (if i < length text_chunks
      then (let batch = take batch_size (drop i text_chunks) in
            embed_loop call source_tab record_id text_chunks (i + batch_size)
              (results @ process_batch source_tab record_id batch (call (i div batch_size) batch)))
      else results)"
  by pat_completeness auto
termination
  by (relation "measure (\<lambda>(call, source_tab, record_id, text_chunks, i, results). length text_chunks - i)")
     (auto simp: batch_size_def)

definition generate_embeddings_for_chunks ::
  "'v embed_env \<Rightarrow> string list \<Rightarrow> string \<Rightarrow> string \<Rightarrow> 'v embedding_record list" where
  "generate_embeddings_for_chunks env text_chunks source_tab record_id =
     (if api_key env = None \<or> api_key env = Some []
      then map (none_record source_tab record_id ''N/A'') text_chunks
      else if \<not> configure_ok env
      then map (none_record source_tab record_id ''N/A'') text_chunks
      else embed_loop (embed_content env) source_tab record_id text_chunks 0 [])"

text \<open>The batch that starts at offset \<open>100 * k\<close>, and whether its call failed.\<close>

definition batch_of :: "string list \<Rightarrow> nat \<Rightarrow> string list" where
  "batch_of text_chunks k = take batch_size (drop (k * batch_size) text_chunks)"

definition batch_failed :: "'v embed_outcome \<Rightarrow> string list \<Rightarrow> bool" where
  "batch_failed outcome batch =
     (case outcome of
        Raised \<Rightarrow> True
      | Response None \<Rightarrow> length batch \<noteq> 0
      | Response (Some vs) \<Rightarrow> length vs \<noteq> length batch)"

definition api_usable :: "'v embed_env \<Rightarrow> bool" where
  "api_usable env = (api_key env \<noteq> None \<and> api_key env \<noteq> Some [] \<and> configure_ok env)"

text \<open>A run of 150 chunks whose second call raises.\<close>

definition demo_env :: "nat embed_env" where
  "demo_env = \<lparr>api_key = Some ''key'', configure_ok = True,
     embed_content = (\<lambda>k batch. if k = 1 then Raised else Response (Some (map length batch)))\<rparr>"

definition demo_chunks :: "string list" where
  "demo_chunks = replicate 100 ''a'' @ replicate 50 ''bb''"

section \<open>Python values, exceptions and strings\<close>

text \<open>
  The values the code handles are what \<^verbatim>\<open>json.load\<close> and the REST client return:
  \<^verbatim>\<open>None\<close>, booleans, numbers, strings, lists and dictionaries with string keys. A
  dictionary is an association list; a key is looked up with \<open>map_of\<close>.
\<close>

datatype pyval =
    PNone
  | PBool bool
  | PInt int
  | PFloat real
  | PStr string
  | PList "pyval list"
  | PDict "(string \<times> pyval) list"

type_synonym pydict = "(string \<times> pyval) list"

text \<open>The exceptions the modelled code can raise or catch.\<close>

datatype exn = KeyError | TypeError | ValueError | AttributeError | OverflowError | LibraryError

text \<open>Truth value of a value in a condition (\<^verbatim>\<open>if x:\<close>).\<close>

fun truthy :: "pyval \<Rightarrow> bool" where
  "truthy PNone = False"
| "truthy (PBool b) = b"
| "truthy (PInt i) = (i \<noteq> 0)"
| "truthy (PFloat r) = (r \<noteq> 0)"
| "truthy (PStr s) = (s \<noteq> [])"
| "truthy (PList xs) = (xs \<noteq> [])"
| "truthy (PDict d) = (d \<noteq> [])"

text \<open>\<^verbatim>\<open>d.get(k, default)\<close> and \<^verbatim>\<open>d.get(k)\<close> on a dictionary.\<close>

definition dict_get :: "pydict \<Rightarrow> string \<Rightarrow> pyval \<Rightarrow> pyval" where
  "dict_get d k dflt = (case map_of d k of None \<Rightarrow> dflt | Some v \<Rightarrow> v)"

text \<open>
  \<^verbatim>\<open>x.get(k, default)\<close> on any value: only a dictionary has the method.
\<close>

definition py_get :: "pyval \<Rightarrow> string \<Rightarrow> pyval \<Rightarrow> exn + pyval" where
  "py_get x k dflt = (case x of PDict d \<Rightarrow> Inr (dict_get d k dflt) | _ \<Rightarrow> Inl AttributeError)"

text \<open>\<^verbatim>\<open>d[k] = v\<close>: an existing key keeps its place, a new one goes last.\<close>

fun dict_set :: "pydict \<Rightarrow> string \<Rightarrow> pyval \<Rightarrow> pydict" where
  "dict_set [] k v = [(k, v)]"
| "dict_set ((k', v') # d) k v = (if k' = k then (k, v) # d else (k', v') # dict_set d k v)"

text \<open>
  Python's number formatting is taken as given: \<open>repr_value\<close> is \<^verbatim>\<open>str\<close> on numbers,
  lists and dictionaries, \<open>format_0f\<close> is the format \<^verbatim>\<open>:.0f\<close>, \<open>parse_float\<close> is
  \<^verbatim>\<open>float\<close> on a string (\<open>None\<close> when it raises \<^verbatim>\<open>ValueError\<close>).
\<close>

record py_builtins =
  repr_value :: "pyval \<Rightarrow> string"
  format_0f :: "real \<Rightarrow> string"
  parse_float :: "string \<Rightarrow> real option"

text \<open>\<^verbatim>\<open>str(x)\<close>, as an f-string field renders it.\<close>

definition py_str :: "py_builtins \<Rightarrow> pyval \<Rightarrow> string" where
  "py_str B x =
     (case x of
        PStr s \<Rightarrow> s
      | PNone \<Rightarrow> ''None''
      | PBool b \<Rightarrow> (if b then ''True'' else ''False'')
      | _ \<Rightarrow> repr_value B x)"

text \<open>Sequencing of steps that may raise: the first exception ends the computation.\<close>

definition and_then :: "exn + 'a \<Rightarrow> ('a \<Rightarrow> exn + 'b) \<Rightarrow> exn + 'b" where
  "and_then r f = (case r of Inl e \<Rightarrow> Inl e | Inr x \<Rightarrow> f x)"

text \<open>
  The conversion of an integer to a float, which \<^verbatim>\<open>int * float\<close> and the format
  \<^verbatim>\<open>:.0f\<close> of an integer both perform: an integer of magnitude
  \<open>2^1024 - 2^970\<close> or more is beyond the float range and raises \<^verbatim>\<open>OverflowError\<close>.
  Within the range the float is taken as the exact real.
\<close>

definition fits_float :: "int \<Rightarrow> bool" where
  "fits_float i = (\<bar>i\<bar> < 2 ^ 1024 - 2 ^ 970)"

definition int_to_float :: "int \<Rightarrow> exn + real" where
  "int_to_float i = (if fits_float i then Inr (real_of_int i) else Inl OverflowError)"

text \<open>
  \<^verbatim>\<open>f"{x*100:.0f}"\<close>: an integer is multiplied as an integer and the product
  converted by the format, which raises when it is beyond the float range; a float is
  multiplied and formatted; a boolean counts as 0 or 1; \<^verbatim>\<open>None\<close> and a dictionary
  cannot be multiplied, a string or a list can but the format rejects the product.
\<close>

definition percent :: "py_builtins \<Rightarrow> pyval \<Rightarrow> exn + string" where
  "percent B x =
     (case x of
        PInt i \<Rightarrow> and_then (int_to_float (i * 100)) (\<lambda>r. Inr (format_0f B r))
      | PFloat r \<Rightarrow> Inr (format_0f B (r * 100))
      | PBool b \<Rightarrow> Inr (format_0f B (if b then 100 else 0))
      | PStr s \<Rightarrow> Inl ValueError
      | _ \<Rightarrow> Inl TypeError)"

text \<open>\<^verbatim>\<open>sep.join(parts)\<close> on strings.\<close>

fun join :: "string \<Rightarrow> string list \<Rightarrow> string" where
  "join sep [] = []"
| "join sep [x] = x"
| "join sep (x # y # ys) = x @ sep @ join sep (y # ys)"

text \<open>\<^verbatim>\<open>s.split(c)\<close> for a one-character separator: never an empty list.\<close>

fun split_on :: "char \<Rightarrow> string \<Rightarrow> string list" where
  "split_on c [] = [[]]"
| "split_on c (x # xs) =
     (if x = c then [] # split_on c xs
      else (case split_on c xs of [] \<Rightarrow> [[x]] | p # ps \<Rightarrow> (x # p) # ps))"

text \<open>\<^verbatim>\<open>s.strip(chars)\<close>: the characters of \<open>chars\<close> removed from both ends.\<close>

definition strip_chars :: "string \<Rightarrow> string \<Rightarrow> string" where
  "strip_chars chars s =
     rev (dropWhile (\<lambda>c. c \<in> set chars) (rev (dropWhile (\<lambda>c. c \<in> set chars) s)))"

text \<open>
  \<^verbatim>\<open>s.replace(old, new)\<close> for a non-empty \<open>old\<close>: the occurrences are found from
  the left and do not overlap.
\<close>

function replace_all :: "string \<Rightarrow> string \<Rightarrow> string \<Rightarrow> string" where
  "replace_all old new s =
     (if s = [] \<or> old = [] then s
      else if prefix old s then new @ replace_all old new (drop (length old) s)
      else hd s # replace_all old new (tl s))"
  by pat_completeness auto
termination
  by (relation "measure (\<lambda>(old, new, s). length s)") (auto simp: neq_Nil_conv)

section \<open>Chunk synthesis (process_location_memory_to_chunks)\<close>

definition not_available :: pyval where
  "not_available = PStr ''N/A''"

text \<open>
  The coordinates, as (longitude, latitude). A dictionary is read at \<^verbatim>\<open>x\<close> and
  \<^verbatim>\<open>y\<close>. A string is stripped of parentheses and split at commas; unpacking anything
  but two parts, or a part \<^verbatim>\<open>float\<close> rejects, raises \<^verbatim>\<open>ValueError\<close>, which the
  code catches: what was assigned before stays (the longitude, when only the latitude
  is malformed).
\<close>

definition parse_coordinates :: "py_builtins \<Rightarrow> pyval \<Rightarrow> pyval \<times> pyval" where
  "parse_coordinates B coords_raw =
     (case coords_raw of
        PDict d \<Rightarrow> (dict_get d ''x'' not_available, dict_get d ''y'' not_available)
      | PStr s \<Rightarrow>
          (case split_on (CHR '','') (strip_chars ''()'' s) of
             [lon_str, lat_str] \<Rightarrow>
               (case parse_float B lon_str of
                  None \<Rightarrow> (not_available, not_available)
                | Some lon \<Rightarrow>
                    (case parse_float B lat_str of
                       None \<Rightarrow> (PFloat lon, not_available)
                     | Some lat \<Rightarrow> (PFloat lon, PFloat lat)))
           | _ \<Rightarrow> (not_available, not_available))
      | _ \<Rightarrow> (not_available, not_available))"

definition identity_chunk :: "py_builtins \<Rightarrow> pydict \<Rightarrow> string" where
  "identity_chunk B record =
     (let location_name = dict_get record ''location_name'' (PStr ''Unknown Location'');
          location_id_text = dict_get record ''location_id'' not_available;
          db_id = dict_get record ''id'' not_available;
          (longitude, latitude) = parse_coordinates B (dict_get record ''coordinates'' PNone);
          last_interaction_str = dict_get record ''last_interaction'' not_available;
          total_interactions = dict_get record ''total_interactions'' (PInt 0);
          blockchain_address = dict_get record ''blockchain_address'' not_available
      in ''Location: '' @ py_str B location_name @ '' (Business ID: '' @ py_str B location_id_text @
         '', DB ID: '' @ py_str B db_id @ ''). '' @
         ''Coordinates: ('' @ py_str B longitude @ '', '' @ py_str B latitude @ ''). '' @
         ''Last interaction: '' @ py_str B last_interaction_str @
         ''. Total interactions: '' @ py_str B total_interactions @ ''. '' @
         ''Blockchain address: '' @ py_str B blockchain_address @ ''.'')"

text \<open>
  The list comprehension over \<^verbatim>\<open>traits.items()\<close>: one part per trait, the first
  value that cannot be formatted raises.
\<close>

fun trait_parts :: "py_builtins \<Rightarrow> pydict \<Rightarrow> exn + string list" where
  "trait_parts B [] = Inr []"
| "trait_parts B ((k, v) # kvs) =
     and_then (percent B v) (\<lambda>p.
     and_then (trait_parts B kvs) (\<lambda>ps.
       Inr ((replace_all ''_'' '' '' k @ '': '' @ p @ ''%'') # ps)))"

definition traits_chunk :: "py_builtins \<Rightarrow> string \<Rightarrow> pyval \<Rightarrow> exn + string" where
  "traits_chunk B name traits =
     (case traits of
        PDict t \<Rightarrow>
          and_then (trait_parts B t) (\<lambda>parts.
            Inr (''The AI personality for '' @ name @ '' exhibits traits such as '' @
                 join '', '' parts @ ''.''))
      | _ \<Rightarrow> Inl AttributeError)"

definition voice_chunk :: "py_builtins \<Rightarrow> pyval \<Rightarrow> exn + string" where
  "voice_chunk B voice_char =
     and_then (py_get voice_char ''tone'' not_available) (\<lambda>tone.
     and_then (py_get voice_char ''pace'' not_available) (\<lambda>pace.
       Inr (''Its voice is typically '' @ py_str B tone @ '' and '' @ py_str B pace @ ''.'')))"

text \<open>
  \<^verbatim>\<open>", ".join(x)\<close>: a list of strings is joined, a string is joined character by
  character, a dictionary by its keys; anything else, or a list with an element that
  is not a string, raises \<^verbatim>\<open>TypeError\<close>.
\<close>

fun the_strings :: "pyval list \<Rightarrow> string list option" where
  "the_strings [] = Some []"
| "the_strings (PStr s # xs) = map_option ((#) s) (the_strings xs)"
| "the_strings (_ # xs) = None"

definition join_value :: "string \<Rightarrow> pyval \<Rightarrow> exn + string" where
  "join_value sep x =
     (case x of
        PList xs \<Rightarrow> (case the_strings xs of None \<Rightarrow> Inl TypeError | Some ss \<Rightarrow> Inr (join sep ss))
      | PStr s \<Rightarrow> Inr (join sep (map (\<lambda>c. [c]) s))
      | PDict d \<Rightarrow> Inr (join sep (map fst d))
      | _ \<Rightarrow> Inl TypeError)"

definition cultural_chunk :: "py_builtins \<Rightarrow> string \<Rightarrow> pyval \<Rightarrow> exn + string" where
  "cultural_chunk B name cultural =
     and_then (py_get cultural ''languages'' (PList [])) (\<lambda>languages.
     and_then (join_value '', '' languages) (\<lambda>lang_str.
     and_then (py_get cultural ''primaryCulture'' not_available) (\<lambda>primary.
       Inr (''Cultural influences for '' @ name @ '' include primary culture: '' @
            py_str B primary @ '', languages: '' @
            (if lang_str \<noteq> [] then lang_str else ''N/A'') @ ''.''))))"

definition voice_profile_chunk :: "py_builtins \<Rightarrow> string \<Rightarrow> pydict \<Rightarrow> exn + string" where
  "voice_profile_chunk B name voice_profile =
     and_then (percent B (dict_get voice_profile ''stability'' (PInt 0))) (\<lambda>stability.
     and_then (percent B (dict_get voice_profile ''similarityBoost'' (PInt 0))) (\<lambda>boost.
       Inr (''Voice profile for '' @ name @ '': ElevenLabs Voice ID is '' @
            py_str B (dict_get voice_profile ''voiceId'' not_available) @
            '', stability '' @ stability @ ''%, similarity boost '' @ boost @ ''%.'')))"

text \<open>
  One optional step of the function: when the condition holds, the chunk is built
  (which may raise) and appended to \<^verbatim>\<open>chunks\<close>.
\<close>

definition append_if :: "bool \<Rightarrow> exn + string \<Rightarrow> string list \<Rightarrow> exn + string list" where
  "append_if cond chunk chunks =
     (if cond then and_then chunk (\<lambda>c. Inr (chunks @ [c])) else Inr chunks)"

definition personality_chunks ::
  "py_builtins \<Rightarrow> string \<Rightarrow> pyval \<Rightarrow> string list \<Rightarrow> exn + string list" where
  "personality_chunks B name personality_data chunks =
     (case personality_data of
        PDict pd \<Rightarrow>
          (if pd \<noteq> [] then
             (let traits = dict_get pd ''traits'' (PDict []);
                  voice_char = dict_get pd ''voiceCharacteristics'' (PDict []);
                  cultural = dict_get pd ''culturalInfluence'' (PDict [])
              in and_then (append_if (truthy traits) (traits_chunk B name traits) chunks) (\<lambda>chunks.
                 and_then (append_if (truthy voice_char) (voice_chunk B voice_char) chunks) (\<lambda>chunks.
                 append_if (truthy cultural) (cultural_chunk B name cultural) chunks)))
           else Inr chunks)
      | _ \<Rightarrow> Inr chunks)"

definition process_location_memory_to_chunks :: "py_builtins \<Rightarrow> pydict \<Rightarrow> exn + string list" where
  "process_location_memory_to_chunks B record =
     (let name = py_str B (dict_get record ''location_name'' (PStr ''Unknown Location''));
          chunks = [identity_chunk B record]
      in and_then (personality_chunks B name (dict_get record ''personality_data'' PNone) chunks)
           (\<lambda>chunks.
              (case dict_get record ''voice_profile'' PNone of
                 PDict vp \<Rightarrow> append_if (vp \<noteq> []) (voice_profile_chunk B name vp) chunks
               | _ \<Rightarrow> Inr chunks)))"

text \<open>
  The kinds of chunk, in schema order, recognised by the fixed text each kind starts
  with.
\<close>

datatype chunk_section = Identity | Traits | VoiceCharacteristics | CulturalInfluence | VoiceProfile

definition chunk_section_of :: "string \<Rightarrow> chunk_section option" where
  "chunk_section_of c =
     (if prefix ''Location: '' c then Some Identity
      else if prefix ''The AI personality for '' c then Some Traits
      else if prefix ''Its voice is typically '' c then Some VoiceCharacteristics
      else if prefix ''Cultural influences for '' c then Some CulturalInfluence
      else if prefix ''Voice profile for '' c then Some VoiceProfile
      else None)"

text \<open>
  Whether an optional section exists and is non-empty on a record: the three
  personality sections live inside a non-empty dictionary \<^verbatim>\<open>personality_data\<close>, the
  voice profile is the non-empty dictionary \<^verbatim>\<open>voice_profile\<close>.
\<close>

definition section_of :: "pyval \<Rightarrow> string \<Rightarrow> pyval" where
  "section_of personality_data key =
     (case personality_data of PDict pd \<Rightarrow> dict_get pd key (PDict []) | _ \<Rightarrow> PDict [])"

definition personality_section :: "pydict \<Rightarrow> string \<Rightarrow> pyval" where
  "personality_section record key = section_of (dict_get record ''personality_data'' PNone) key"

fun section_present :: "pydict \<Rightarrow> chunk_section \<Rightarrow> bool" where
  "section_present record Identity = True"
| "section_present record Traits = truthy (personality_section record ''traits'')"
| "section_present record VoiceCharacteristics =
     truthy (personality_section record ''voiceCharacteristics'')"
| "section_present record CulturalInfluence =
     truthy (personality_section record ''culturalInfluence'')"
| "section_present record VoiceProfile =
     (case dict_get record ''voice_profile'' PNone of PDict vp \<Rightarrow> vp \<noteq> [] | _ \<Rightarrow> False)"

definition optional_sections :: "chunk_section list" where
  "optional_sections = [Traits, VoiceCharacteristics, CulturalInfluence, VoiceProfile]"

text \<open>
  A record whose sections have the types of the schema: where present and non-empty,
  the traits are a dictionary of numbers, the voice characteristics and the cultural
  influence are dictionaries, the languages can be joined; stability and similarity
  boost of a voice profile are numbers. A number here is one the format \<^verbatim>\<open>:.0f\<close>
  accepts after the multiplication by 100: a float, a boolean, or an integer whose
  hundredfold is within the float range.
\<close>

fun is_percentage :: "pyval \<Rightarrow> bool" where
  "is_percentage (PInt i) = fits_float (i * 100)"
| "is_percentage (PFloat r) = True"
| "is_percentage (PBool b) = True"
| "is_percentage _ = False"

fun is_dict :: "pyval \<Rightarrow> bool" where
  "is_dict (PDict d) = True"
| "is_dict _ = False"

definition traits_ok :: "pyval \<Rightarrow> bool" where
  "traits_ok traits =
     (case traits of PDict t \<Rightarrow> list_all (\<lambda>kv. is_percentage (snd kv)) t | _ \<Rightarrow> False)"

definition languages_ok :: "pyval \<Rightarrow> bool" where
  "languages_ok cultural =
     (case cultural of
        PDict c \<Rightarrow> (case dict_get c ''languages'' (PList []) of
                     PList xs \<Rightarrow> the_strings xs \<noteq> None
                   | PStr s \<Rightarrow> True
                   | PDict d \<Rightarrow> True
                   | _ \<Rightarrow> False)
      | _ \<Rightarrow> False)"

definition schema_typed :: "pydict \<Rightarrow> bool" where
  "schema_typed record =
     ((truthy (personality_section record ''traits'') \<longrightarrow>
         traits_ok (personality_section record ''traits'')) \<and>
      (truthy (personality_section record ''voiceCharacteristics'') \<longrightarrow>
         is_dict (personality_section record ''voiceCharacteristics'')) \<and>
      (truthy (personality_section record ''culturalInfluence'') \<longrightarrow>
         languages_ok (personality_section record ''culturalInfluence'')) \<and>
      (case dict_get record ''voice_profile'' PNone of
         PDict vp \<Rightarrow> is_percentage (dict_get vp ''stability'' (PInt 0)) \<and>
                     is_percentage (dict_get vp ''similarityBoost'' (PInt 0))
       | _ \<Rightarrow> True))"

text \<open>A record with the identity fields only, and one with every optional section.\<close>

definition demo_builtins :: py_builtins where
  "demo_builtins =
     \<lparr>repr_value = (\<lambda>x. if x = PInt 7 then ''7'' else if x = PInt 0 then ''0''
                          else if x = PFloat (-9) then ''-9.0'' else if x = PFloat 38 then ''38.0''
                          else ''<value>''),
      format_0f = (\<lambda>r. ''<number>''),
      parse_float = (\<lambda>s. None)\<rparr>"

definition minimal_record :: pydict where
  "minimal_record =
     [(''id'', PInt 7), (''location_name'', PStr ''Lisbon''),
      (''coordinates'', PDict [(''x'', PFloat (-9)), (''y'', PFloat 38)])]"

definition full_record :: pydict where
  "full_record =
     [(''id'', PInt 7), (''location_name'', PStr ''Lisbon''),
      (''coordinates'', PStr ''(-9.14,38.72)''),
      (''personality_data'', PDict
         [(''traits'', PDict [(''open_minded'', PFloat (1/2))]),
          (''voiceCharacteristics'', PDict [(''tone'', PStr ''warm'')]),
          (''culturalInfluence'', PDict [(''languages'', PList [PStr ''pt'', PStr ''en''])])]),
      (''voice_profile'', PDict [(''voiceId'', PStr ''v1''), (''stability'', PFloat (1/2))])]"

section \<open>Dataset registry and preprocessing (preprocess_data)\<close>

text \<open>
  An entry of \<^verbatim>\<open>dataset_configs.json\<close>, which the enhancer loads into
  \<^verbatim>\<open>self.datasets\<close>: the Kaggle id, the feature names in order, the target field and
  the destination table.
\<close>

record dataset_config =
  dataset_id :: string
  features :: "string list"
  target :: string
  table_name :: string

text \<open>
  A data frame is its columns in order, each with a name and a dtype: numeric
  (\<^verbatim>\<open>is_numeric_dtype\<close>) or \<^verbatim>\<open>object\<close> (strings). A missing cell (NaN) is \<open>None\<close>.
  Column names are looked up with \<open>map_of\<close>, which is the data frame's own lookup as
  long as no two columns share a name.
\<close>

datatype column = NumCol "real option list" | ObjCol "string option list"

type_synonym dataframe = "(string \<times> column) list"

definition columns :: "dataframe \<Rightarrow> string list" where
  "columns df = map fst df"

fun column_length :: "column \<Rightarrow> nat" where
  "column_length (NumCol vs) = length vs"
| "column_length (ObjCol vs) = length vs"

text \<open>The cells that are not missing.\<close>

definition present :: "'a option list \<Rightarrow> 'a list" where
  "present vs = List.map_filter (\<lambda>v. v) vs"

text \<open>
  \<^verbatim>\<open>df[col].mean()\<close> skips missing cells; with none left it is NaN, and filling NaN
  with NaN changes nothing.
\<close>

definition column_mean :: "real option list \<Rightarrow> real option" where
  "column_mean vs =
     (if present vs = [] then None else Some (sum_list (present vs) / real (length (present vs))))"

text \<open>
  \<^verbatim>\<open>df[col].mode()\<close>: the most frequent values among the cells present, in ascending
  order; empty when every cell is missing.
\<close>

definition column_mode :: "string option list \<Rightarrow> string list" where
  "column_mode vs =
     (let xs = present vs;
          levels = sort (remdups xs);
          best = fold max (map (count_list xs) levels) 0
      in filter (\<lambda>l. count_list xs l = best) levels)"

definition fillna :: "'a option \<Rightarrow> 'a option list \<Rightarrow> 'a option list" where
  "fillna v vs = map (\<lambda>c. case c of None \<Rightarrow> v | Some x \<Rightarrow> Some x) vs"

definition fill_missing :: "column \<Rightarrow> column" where
  "fill_missing c =
     (case c of
        NumCol vs \<Rightarrow> NumCol (fillna (column_mean vs) vs)
      | ObjCol vs \<Rightarrow>
          ObjCol (fillna (Some (case column_mode vs of [] \<Rightarrow> ''unknown'' | m # _ \<Rightarrow> m)) vs))"

text \<open>\<^verbatim>\<open>df[col] = ...\<close> for an existing column: the column keeps its place.\<close>

definition set_column :: "dataframe \<Rightarrow> string \<Rightarrow> column \<Rightarrow> dataframe" where
  "set_column df col c = map (\<lambda>(n, old). if n = col then (n, c) else (n, old)) df"

text \<open>The first loop: \<^verbatim>\<open>for col in features + [target]\<close>.\<close>

fun fill_columns :: "string list \<Rightarrow> dataframe \<Rightarrow> dataframe" where
  "fill_columns [] df = df"
| "fill_columns (col # cols) df =
     (case map_of df col of
        None \<Rightarrow> fill_columns cols df
      | Some c \<Rightarrow> fill_columns cols (set_column df col (fill_missing c)))"

text \<open>
  \<^verbatim>\<open>pd.get_dummies(df, columns=[col], prefix=[col], dummy_na=False)\<close> on an object
  column: the column is dropped and one indicator column per distinct value present,
  named \<^verbatim>\<open><col>_<value>\<close>, is appended, the values in ascending order.
\<close>

definition dummy_column :: "string \<Rightarrow> string option list \<Rightarrow> string \<Rightarrow> string \<times> column" where
  "dummy_column col vs level =
     (col @ ''_'' @ level, NumCol (map (\<lambda>v. Some (if v = Some level then 1 else 0)) vs))"

definition get_dummies :: "dataframe \<Rightarrow> string \<Rightarrow> string option list \<Rightarrow> dataframe" where
  "get_dummies df col vs =
     filter (\<lambda>(n, c). n \<noteq> col) df @ map (dummy_column col vs) (sort (remdups (present vs)))"

text \<open>
  The second loop: every feature that is a column of dtype \<^verbatim>\<open>object\<close> is recorded
  in \<^verbatim>\<open>categorical_features\<close> and expanded.
\<close>

fun expand_categorical :: "string list \<Rightarrow> dataframe \<times> string list \<Rightarrow> dataframe \<times> string list" where
  "expand_categorical [] (df, categorical_features) = (df, categorical_features)"
| "expand_categorical (col # cols) (df, categorical_features) =
     (case map_of df col of
        Some (ObjCol vs) \<Rightarrow>
          expand_categorical cols (get_dummies df col vs, categorical_features @ [col])
      | _ \<Rightarrow> expand_categorical cols (df, categorical_features))"

text \<open>The third loop builds \<^verbatim>\<open>new_features\<close> in the order of the configured features.\<close>

definition expanded_features :: "string list \<Rightarrow> string list \<Rightarrow> dataframe \<Rightarrow> string list" where
  "expanded_features feats categorical_features df =
     concat (map (\<lambda>feature.
        if feature \<in> set categorical_features
        then filter (\<lambda>col. prefix (feature @ ''_'') col) (columns df)
        else if feature \<in> set (columns df) then [feature]
        else []) feats)"

text \<open>
  \<^verbatim>\<open>preprocess_data\<close>. \<^verbatim>\<open>self.datasets[dataset_type]\<close> raises \<^verbatim>\<open>KeyError\<close> for a
  dataset type that is not configured.
\<close>

definition preprocess_data ::
  "(string \<rightharpoonup> dataset_config) \<Rightarrow> dataframe \<Rightarrow> string \<Rightarrow> exn + dataframe \<times> string list" where
  "preprocess_data datasets df dataset_type =
     (case datasets dataset_type of
        None \<Rightarrow> Inl KeyError
      | Some dataset_info \<Rightarrow>
          (let df1 = fill_columns (features dataset_info @ [target dataset_info]) df;
               (df2, categorical_features) = expand_categorical (features dataset_info) (df1, [])
           in Inr (df2, expanded_features (features dataset_info) categorical_features df2)))"

text \<open>
  A network data set as the mock generator builds it: a categorical
  \<^verbatim>\<open>network_type\<close>, a numeric \<^verbatim>\<open>signal_strength\<close>, the target and a column that is
  neither a feature nor the target.
\<close>

definition network_config :: dataset_config where
  "network_config = \<lparr>dataset_id = ''network-quality'',
     features = [''network_type'', ''signal_strength''],
     target = ''reliability_score'', table_name = ''network_metrics''\<rparr>"

definition network_table :: dataframe where
  "network_table =
     [(''location_name'', ObjCol [Some ''Tokyo'', Some ''Paris'', Some ''Tokyo'']),
      (''network_type'', ObjCol [Some ''5G'', Some ''4G'', None]),
      (''signal_strength'', NumCol [Some 80, None, Some 60]),
      (''reliability_score'', NumCol [Some (9/10), Some (1/2), Some (7/10)])]"

text \<open>Every column of the data frame has \<open>k\<close> rows.\<close>

definition rows_are :: "nat \<Rightarrow> dataframe \<Rightarrow> bool" where
  "rows_are k df = list_all (\<lambda>nc. column_length (snd nc) = k) df"

section \<open>Predictor: rebuilding the feature row (predict)\<close>

text \<open>
  \<^verbatim>\<open>feature.split("_")[0] if "_" in feature else None\<close>.
\<close>

definition base_feature_name :: "string \<Rightarrow> string option" where
  "base_feature_name feature =
     (if CHR ''_'' \<in> set feature then Some (hd (split_on (CHR ''_'') feature)) else None)"

text \<open>
  One pass of the loop over the stored features: the cell of the input row for
  \<open>feature\<close>. The one-hot branch needs a base name that is neither \<^verbatim>\<open>None\<close> nor the
  empty string and is a key of the input; it compares the input value with the
  feature name from which every occurrence of \<^verbatim>\<open><base>_\<close> is removed, and only a
  string can be equal to that.
\<close>

definition reconstruct_feature :: "pydict \<Rightarrow> string \<Rightarrow> pyval" where
  "reconstruct_feature input_data feature =
     (let base = base_feature_name feature in
      if base \<noteq> None \<and> the base \<noteq> [] \<and> map_of input_data (the base) \<noteq> None
      then (if map_of input_data (the base) =
               Some (PStr (replace_all (the base @ ''_'') [] feature))
            then PInt 1 else PInt 0)
      else if map_of input_data feature \<noteq> None then the (map_of input_data feature)
      else PInt 0)"

text \<open>
  The row of \<^verbatim>\<open>input_df[features]\<close>: the cells in the order of the stored features.
\<close>

definition input_row :: "string list \<Rightarrow> pydict \<Rightarrow> pyval list" where
  "input_row feats input_data = map (reconstruct_feature input_data) feats"

text \<open>Whether \<open>old\<close> occurs in a string.\<close>

fun occurs :: "string \<Rightarrow> string \<Rightarrow> bool" where
  "occurs old [] = (old = [])"
| "occurs old (c # cs) = (prefix old (c # cs) \<or> occurs old cs)"

section \<open>Trained models and the model registry\<close>

text \<open>
  The scikit-learn objects the code creates, stores with joblib and calls. A gradient
  boosting regressor has \<^verbatim>\<open>predict\<close> and \<^verbatim>\<open>feature_importances_\<close>; a random forest
  classifier has \<^verbatim>\<open>predict_proba\<close> as well; a standard scaler has \<^verbatim>\<open>transform\<close>.
  What these methods compute is the library's business: each is a function that
  returns its result or raises.
\<close>

datatype pyobj =
    GradientBoostingRegressor
      (predict_of: "real list list \<Rightarrow> exn + pyval list")
      (importances_of: "real list")
  | RandomForestClassifier
      (predict_of: "real list list \<Rightarrow> exn + pyval list")
      (proba_of: "real list list \<Rightarrow> exn + real list list")
      (importances_of: "real list")
  | StandardScaler (transform_of: "pyval list list \<Rightarrow> exn + real list list")
  | OtherObject

text \<open>\<^verbatim>\<open>hasattr(model, "predict_proba")\<close> and \<^verbatim>\<open>hasattr(model, "feature_importances_")\<close>.\<close>

fun has_predict_proba :: "pyobj \<Rightarrow> bool" where
  "has_predict_proba (RandomForestClassifier p q w) = True"
| "has_predict_proba _ = False"

fun has_feature_importances :: "pyobj \<Rightarrow> bool" where
  "has_feature_importances (GradientBoostingRegressor p w) = True"
| "has_feature_importances (RandomForestClassifier p q w) = True"
| "has_feature_importances _ = False"

text \<open>Method calls: an object without the method raises \<^verbatim>\<open>AttributeError\<close>.\<close>

fun model_predict :: "pyobj \<Rightarrow> real list list \<Rightarrow> exn + pyval list" where
  "model_predict (GradientBoostingRegressor p w) X = p X"
| "model_predict (RandomForestClassifier p q w) X = p X"
| "model_predict _ X = Inl AttributeError"

fun model_predict_proba :: "pyobj \<Rightarrow> real list list \<Rightarrow> exn + real list list" where
  "model_predict_proba (RandomForestClassifier p q w) X = q X"
| "model_predict_proba _ X = Inl AttributeError"

fun scaler_transform :: "pyobj \<Rightarrow> pyval list list \<Rightarrow> exn + real list list" where
  "scaler_transform (StandardScaler t) X = t X"
| "scaler_transform _ X = Inl AttributeError"

text \<open>
  \<^verbatim>\<open>model_info\<close>: the entries that go to the metadata file (\<^verbatim>\<open>type\<close>, \<^verbatim>\<open>metrics\<close>,
  \<^verbatim>\<open>feature_importance\<close>) and the scaler object under the key \<^verbatim>\<open>scaler\<close>.
\<close>

record model_info =
  entries :: pydict
  scaler :: pyobj

text \<open>An entry of \<^verbatim>\<open>self.models\<close>.\<close>

record model_bundle =
  model :: pyobj
  model_features :: "string list"
  info :: model_info

text \<open>The enhancer object: the dataset registry and the in-memory model registry.\<close>

record enhancer =
  datasets :: "string \<rightharpoonup> dataset_config"
  models :: "string \<rightharpoonup> model_bundle"

subsection \<open>Training (train_model)\<close>

text \<open>
  The scikit-learn calls of \<^verbatim>\<open>train_model\<close>, with the arguments the code fixes
  (\<^verbatim>\<open>test_size=0.2\<close>, \<^verbatim>\<open>random_state=42\<close>, \<^verbatim>\<open>n_estimators=100\<close>) folded in. The split
  returns \<^verbatim>\<open>X_train, X_test, y_train, y_test\<close>; fitting the scaler returns the scaler
  and the scaled training rows; fitting an estimator returns the methods of the fitted
  object. \<^verbatim>\<open>f1_score\<close> gets \<^verbatim>\<open>average\<close> and \<^verbatim>\<open>zero_division\<close> from the code.
\<close>

record sklearn =
  train_test_split ::
    "pyval list list \<Rightarrow> pyval list \<Rightarrow>
     exn + pyval list list \<times> pyval list list \<times> pyval list \<times> pyval list"
  fit_scaler :: "pyval list list \<Rightarrow> exn + pyobj \<times> real list list"
  fit_regressor ::
    "real list list \<Rightarrow> pyval list \<Rightarrow> exn + (real list list \<Rightarrow> exn + pyval list) \<times> real list"
  fit_classifier ::
    "real list list \<Rightarrow> pyval list \<Rightarrow>
     exn + (real list list \<Rightarrow> exn + pyval list) \<times> (real list list \<Rightarrow> exn + real list list) \<times>
           real list"
  mean_squared_error :: "pyval list \<Rightarrow> pyval list \<Rightarrow> exn + real"
  r2_score :: "pyval list \<Rightarrow> pyval list \<Rightarrow> exn + real"
  accuracy_score :: "pyval list \<Rightarrow> pyval list \<Rightarrow> exn + real"
  f1_score :: "pyval list \<Rightarrow> pyval list \<Rightarrow> string \<Rightarrow> int \<Rightarrow> exn + real"

text \<open>The cells of a column as Python values; a missing cell is \<^verbatim>\<open>None\<close>.\<close>

fun column_values :: "column \<Rightarrow> pyval list" where
  "column_values (NumCol vs) = map (\<lambda>v. case v of None \<Rightarrow> PNone | Some r \<Rightarrow> PFloat r) vs"
| "column_values (ObjCol vs) = map (\<lambda>v. case v of None \<Rightarrow> PNone | Some s \<Rightarrow> PStr s) vs"

text \<open>
  \<^verbatim>\<open>df[new_features].values\<close>: the rows over the chosen columns; a name that is not a
  column raises \<^verbatim>\<open>KeyError\<close>.
\<close>

fun select_columns :: "dataframe \<Rightarrow> string list \<Rightarrow> exn + pyval list list" where
  "select_columns df [] = Inr []"
| "select_columns df (name # names) =
     (case map_of df name of
        None \<Rightarrow> Inl KeyError
      | Some c \<Rightarrow> and_then (select_columns df names) (\<lambda>cs. Inr (column_values c # cs)))"

definition row_values :: "dataframe \<Rightarrow> string list \<Rightarrow> exn + pyval list list" where
  "row_values df names = and_then (select_columns df names) (\<lambda>cs. Inr (transpose cs))"

definition bounded_score_targets :: "string list" where
  "bounded_score_targets = [''avg_sentiment'', ''reliability_score'']"

definition feature_importance_entry :: "string list \<Rightarrow> pyobj \<Rightarrow> pydict" where
  "feature_importance_entry new_features m =
     (if has_feature_importances m
      then [(''feature_importance'',
             PDict (map (\<lambda>(f, w). (f, PFloat w)) (zip new_features (importances_of m))))]
      else [])"

text \<open>
  The two branches of \<^verbatim>\<open>train_model\<close>: fit the estimator, predict the held-out
  rows, compute the metrics and build \<^verbatim>\<open>model_info\<close>.
\<close>

definition train_regressor ::
  "sklearn \<Rightarrow> string list \<Rightarrow> pyobj \<Rightarrow> real list list \<Rightarrow> real list list \<Rightarrow> pyval list \<Rightarrow>
   pyval list \<Rightarrow> exn + pyobj \<times> model_info" where
  "train_regressor sk new_features scaler_obj X_train_scaled X_test_scaled y_train y_test =
     and_then (fit_regressor sk X_train_scaled y_train) (\<lambda>(p, w).
     and_then (model_predict (GradientBoostingRegressor p w) X_test_scaled) (\<lambda>y_pred.
     and_then (mean_squared_error sk y_test y_pred) (\<lambda>mse.
     and_then (r2_score sk y_test y_pred) (\<lambda>r2.
       Inr (GradientBoostingRegressor p w,
            \<lparr>entries =
               [(''type'', PStr ''regression''),
                (''metrics'', PDict [(''mse'', PFloat mse), (''r2'', PFloat r2)])] @
               feature_importance_entry new_features (GradientBoostingRegressor p w),
             scaler = scaler_obj\<rparr>)))))"

definition train_classifier ::
  "sklearn \<Rightarrow> string list \<Rightarrow> pyobj \<Rightarrow> real list list \<Rightarrow> real list list \<Rightarrow> pyval list \<Rightarrow>
   pyval list \<Rightarrow> exn + pyobj \<times> model_info" where
  "train_classifier sk new_features scaler_obj X_train_scaled X_test_scaled y_train y_test =
     and_then (fit_classifier sk X_train_scaled y_train) (\<lambda>(p, q, w).
     and_then (model_predict (RandomForestClassifier p q w) X_test_scaled) (\<lambda>y_pred.
     and_then (accuracy_score sk y_test y_pred) (\<lambda>accuracy.
     and_then (f1_score sk y_test y_pred ''weighted'' 0) (\<lambda>f1.
       Inr (RandomForestClassifier p q w,
            \<lparr>entries =
               [(''type'', PStr ''classification''),
                (''metrics'', PDict [(''accuracy'', PFloat accuracy), (''f1'', PFloat f1)])] @
               feature_importance_entry new_features (RandomForestClassifier p q w),
             scaler = scaler_obj\<rparr>)))))"

text \<open>
  The part of \<^verbatim>\<open>train_model\<close> after the two checks: split, scale, and the branch
  the target name selects. It returns the model and \<^verbatim>\<open>model_info\<close>; an exception of
  any library call leaves the function.
\<close>

definition fit_and_evaluate ::
  "sklearn \<Rightarrow> dataframe \<Rightarrow> string \<Rightarrow> string list \<Rightarrow> exn + pyobj \<times> model_info" where
  "fit_and_evaluate sk df tgt new_features =
     and_then (row_values df new_features) (\<lambda>X.
     and_then (row_values df [tgt]) (\<lambda>y_rows.
     and_then (train_test_split sk X (map hd y_rows)) (\<lambda>(X_train, X_test, y_train, y_test).
     and_then (fit_scaler sk X_train) (\<lambda>(scaler_obj, X_train_scaled).
     and_then (scaler_transform scaler_obj X_test) (\<lambda>X_test_scaled.
       if tgt \<in> set bounded_score_targets
       then train_regressor sk new_features scaler_obj X_train_scaled X_test_scaled y_train y_test
       else train_classifier sk new_features scaler_obj X_train_scaled X_test_scaled y_train
              y_test)))))"

text \<open>
  What \<^verbatim>\<open>train_model\<close> returns: the dictionary \<^verbatim>\<open>{"error": message}\<close> or
  \<^verbatim>\<open>model_info\<close>.
\<close>

datatype train_result = TrainError string | ModelInfo model_info

definition no_features_message :: string where
  "no_features_message = ''No features available for training.''"

definition missing_target_message :: "string \<Rightarrow> string" where
  "missing_target_message tgt = ''Target column '' @ [CHR 0x27] @ tgt @ [CHR 0x27] @ '' not found.''"

text \<open>
  \<^verbatim>\<open>train_model\<close>, with the enhancer passed in and returned.
  \<^verbatim>\<open>self.datasets[dataset_type]\<close> raises \<^verbatim>\<open>KeyError\<close> for a type that is not
  configured.
\<close>

definition train_model ::
  "sklearn \<Rightarrow> enhancer \<Rightarrow> dataframe \<Rightarrow> string \<Rightarrow> string list \<Rightarrow> (exn + train_result) \<times> enhancer" where
  "train_model sk self df dataset_type new_features =
     (case datasets self dataset_type of
        None \<Rightarrow> (Inl KeyError, self)
      | Some dataset_info \<Rightarrow>
          if new_features = [] then (Inr (TrainError no_features_message), self)
          else if target dataset_info \<notin> set (columns df)
          then (Inr (TrainError (missing_target_message (target dataset_info))), self)
          else
            (case fit_and_evaluate sk df (target dataset_info) new_features of
               Inl e \<Rightarrow> (Inl e, self)
             | Inr (m, model_info) \<Rightarrow>
                 (Inr (ModelInfo model_info),
                  self\<lparr>models := (models self)(dataset_type \<mapsto>
                    \<lparr>model = m, model_features = new_features, info = model_info\<rparr>)\<rparr>)))"

subsection \<open>Loading (load_model)\<close>

text \<open>
  A file under \<^verbatim>\<open>./models\<close>: an object dumped with joblib, a metadata document, or
  anything else. A metadata document is a JSON object that may lack the key
  \<^verbatim>\<open>features\<close> or the key \<^verbatim>\<open>info\<close>; where present, \<^verbatim>\<open>features\<close> is a list of strings
  and \<^verbatim>\<open>info\<close> an object, as \<^verbatim>\<open>save_model\<close> writes them.
\<close>

datatype artifact =
    Joblib pyobj
  | MetadataJson "string list option" "pydict option"
  | Unreadable

type_synonym files = "string \<rightharpoonup> artifact"

definition joblib_load :: "artifact \<Rightarrow> exn + pyobj" where
  "joblib_load a = (case a of Joblib obj \<Rightarrow> Inr obj | _ \<Rightarrow> Inl LibraryError)"

definition json_load :: "artifact \<Rightarrow> exn + string list option \<times> pydict option" where
  "json_load a = (case a of MetadataJson f i \<Rightarrow> Inr (f, i) | _ \<Rightarrow> Inl ValueError)"

definition model_path :: "string \<Rightarrow> string" where
  "model_path dataset_type = ''./models/'' @ dataset_type @ ''_model.joblib''"

definition scaler_path :: "string \<Rightarrow> string" where
  "scaler_path dataset_type = ''./models/'' @ dataset_type @ ''_scaler.joblib''"

definition metadata_path :: "string \<Rightarrow> string" where
  "metadata_path dataset_type = ''./models/'' @ dataset_type @ ''_metadata.json''"

text \<open>
  The body of the \<^verbatim>\<open>try\<close> after the existence check: the three loads and the two
  subscripts of the metadata, each of which may raise; then the bundle.
\<close>

definition load_bundle :: "files \<Rightarrow> string \<Rightarrow> exn + model_bundle" where
  "load_bundle fs dataset_type =
     and_then (joblib_load (the (fs (model_path dataset_type)))) (\<lambda>m.
     and_then (joblib_load (the (fs (scaler_path dataset_type)))) (\<lambda>s.
     and_then (json_load (the (fs (metadata_path dataset_type)))) (\<lambda>(feats, inf).
       (case feats of
          None \<Rightarrow> Inl KeyError
        | Some fl \<Rightarrow>
            (case inf of
               None \<Rightarrow> Inl KeyError
             | Some i \<Rightarrow>
                 Inr \<lparr>model = m, model_features = fl,
                      info = \<lparr>entries = filter (\<lambda>kv. fst kv \<noteq> ''scaler'') i, scaler = s\<rparr>\<rparr>)))))"

definition artifacts_exist :: "files \<Rightarrow> string \<Rightarrow> bool" where
  "artifacts_exist fs dataset_type =
     list_all (\<lambda>path. fs path \<noteq> None)
       [model_path dataset_type, scaler_path dataset_type, metadata_path dataset_type]"

text \<open>
  \<^verbatim>\<open>load_model\<close>: \<^verbatim>\<open>False\<close> when a file is missing or anything raises, and only
  the last statement before \<^verbatim>\<open>return True\<close> writes to \<^verbatim>\<open>self.models\<close>.
\<close>

definition load_model :: "files \<Rightarrow> enhancer \<Rightarrow> string \<Rightarrow> bool \<times> enhancer" where
  "load_model fs self dataset_type =
     (if \<not> artifacts_exist fs dataset_type then (False, self)
      else
        (case load_bundle fs dataset_type of
           Inl e \<Rightarrow> (False, self)
         | Inr b \<Rightarrow> (True, self\<lparr>models := (models self)(dataset_type \<mapsto> b)\<rparr>)))"

subsection \<open>Prediction (predict)\<close>

text \<open>
  The dictionary \<^verbatim>\<open>predict\<close> returns: \<^verbatim>\<open>{"error": ...}\<close>, with the fixed message or
  the text of a caught exception, or \<^verbatim>\<open>{"prediction": ..., "confidence": ...}\<close>, where
  a confidence of \<^verbatim>\<open>None\<close> is \<open>None\<close>.
\<close>

datatype error_text = NoModelAvailable string | ExceptionText exn

datatype prediction_result = PredictionError error_text | Prediction pyval "real option"

text \<open>\<^verbatim>\<open>float(prediction)\<close> for a numpy number, the value itself otherwise.\<close>

fun as_float :: "pyval \<Rightarrow> pyval" where
  "as_float (PInt i) = PFloat (real_of_int i)"
| "as_float v = v"

text \<open>\<^verbatim>\<open>x[0]\<close> on a sequence.\<close>

definition first_of :: "'a list \<Rightarrow> exn + 'a" where
  "first_of xs = (case xs of [] \<Rightarrow> Inl LibraryError | x # _ \<Rightarrow> Inr x)"

text \<open>\<^verbatim>\<open>proba.max()\<close>: the largest entry; an empty array raises.\<close>

definition array_max :: "real list \<Rightarrow> exn + real" where
  "array_max xs = (case xs of [] \<Rightarrow> Inl ValueError | x # rest \<Rightarrow> Inr (fold max rest x))"

text \<open>The body of the \<^verbatim>\<open>try\<close> in \<^verbatim>\<open>predict\<close>, for the registered bundle.\<close>

definition run_model :: "model_bundle \<Rightarrow> pydict \<Rightarrow> exn + pyval \<times> real option" where
  "run_model model_data input_data =
     and_then (scaler_transform (scaler (info model_data))
                 [input_row (model_features model_data) input_data]) (\<lambda>input_scaled.
     and_then (model_predict (model model_data) input_scaled) (\<lambda>predictions.
     and_then (first_of predictions) (\<lambda>prediction.
     and_then
       (if has_predict_proba (model model_data)
        then and_then (model_predict_proba (model model_data) input_scaled) (\<lambda>probas.
             and_then (first_of probas) (\<lambda>proba.
             and_then (array_max proba) (\<lambda>c. Inr (Some c))))
        else Inr None) (\<lambda>confidence.
       Inr (as_float prediction, confidence)))))"

definition predict ::
  "files \<Rightarrow> enhancer \<Rightarrow> string \<Rightarrow> pydict \<Rightarrow> prediction_result \<times> enhancer" where
  "predict fs self dataset_type input_data =
     (let (available, self1) =
            (if models self dataset_type \<noteq> None then (True, self)
             else load_model fs self dataset_type)
      in if \<not> available then (PredictionError (NoModelAvailable dataset_type), self1)
         else
           (case models self1 dataset_type of
              None \<Rightarrow> (PredictionError (ExceptionText KeyError), self1)
            | Some model_data \<Rightarrow>
                (case run_model model_data input_data of
                   Inl e \<Rightarrow> (PredictionError (ExceptionText e), self1)
                 | Inr (prediction, confidence) \<Rightarrow> (Prediction prediction confidence, self1))))"

subsection \<open>Sample runs\<close>

text \<open>
  Stand-ins for the library with fixed answers: the split returns the data as both
  halves, the scaler maps every cell to 0, the regressor always predicts 0.5, the
  classifier always predicts class 1 with probabilities 0.3 and 0.7.
\<close>

definition zero_scaler :: pyobj where
  "zero_scaler = StandardScaler (\<lambda>rows. Inr (map (map (\<lambda>v. 0)) rows))"

definition half_regressor :: pyobj where
  "half_regressor = GradientBoostingRegressor (\<lambda>rows. Inr (map (\<lambda>r. PFloat (1/2)) rows)) [1]"

definition one_classifier :: pyobj where
  "one_classifier =
     RandomForestClassifier (\<lambda>rows. Inr (map (\<lambda>r. PInt 1) rows))
       (\<lambda>rows. Inr (map (\<lambda>r. [3/10, 7/10]) rows)) [1]"

definition demo_sklearn :: sklearn where
  "demo_sklearn =
     \<lparr>train_test_split = (\<lambda>X y. Inr (X, X, y, y)),
      fit_scaler = (\<lambda>X. Inr (zero_scaler, map (map (\<lambda>v. 0)) X)),
      fit_regressor = (\<lambda>X y. Inr (predict_of half_regressor, importances_of half_regressor)),
      fit_classifier = (\<lambda>X y. Inr (predict_of one_classifier, proba_of one_classifier,
                                    importances_of one_classifier)),
      mean_squared_error = (\<lambda>y_true y_pred. Inr 0),
      r2_score = (\<lambda>y_true y_pred. Inr 1),
      accuracy_score = (\<lambda>y_true y_pred. Inr 1),
      f1_score = (\<lambda>y_true y_pred average zero_division. Inr 1)\<rparr>"

definition social_config :: dataset_config where
  "social_config = \<lparr>dataset_id = ''social-activity'',
     features = [''total_posts'', ''total_likes''],
     target = ''activity_level'', table_name = ''social_metrics''\<rparr>"

definition demo_enhancer :: enhancer where
  "demo_enhancer =
     \<lparr>datasets = [''network'' \<mapsto> network_config, ''social'' \<mapsto> social_config],
      models = Map.empty\<rparr>"

definition small_network_table :: dataframe where
  "small_network_table =
     [(''signal_strength'', NumCol [Some 80, Some 60]),
      (''reliability_score'', NumCol [Some (9/10), Some (1/2)])]"

definition small_social_table :: dataframe where
  "small_social_table =
     [(''total_posts'', NumCol [Some 10, Some 20]),
      (''activity_level'', NumCol [Some 0, Some 1])]"

text \<open>
  A model directory in which the three files of \<^verbatim>\<open>network\<close> exist but the metadata
  cannot be decoded, and one in which they are as \<^verbatim>\<open>save_model\<close> writes them.
\<close>

definition broken_files :: files where
  "broken_files =
     [model_path ''network'' \<mapsto> Joblib half_regressor,
      scaler_path ''network'' \<mapsto> Joblib zero_scaler,
      metadata_path ''network'' \<mapsto> Unreadable]"

definition saved_files :: files where
  "saved_files =
     [model_path ''network'' \<mapsto> Joblib half_regressor,
      scaler_path ''network'' \<mapsto> Joblib zero_scaler,
      metadata_path ''network'' \<mapsto>
        MetadataJson (Some [''signal_strength'']) (Some [(''type'', PStr ''regression'')])]"

definition classifier_bundle :: model_bundle where
  "classifier_bundle =
     \<lparr>model = one_classifier, model_features = [''total_posts''],
      info = \<lparr>entries = [(''type'', PStr ''classification'')], scaler = zero_scaler\<rparr>\<rparr>"

definition classifier_enhancer :: enhancer where
  "classifier_enhancer = demo_enhancer\<lparr>models := [''social'' \<mapsto> classifier_bundle]\<rparr>"

section \<open>Enhancement of a location (enhance_location_data)\<close>

text \<open>
  \<^verbatim>\<open>x * 5\<close> and \<^verbatim>\<open>x * 0.3\<close>. A number (or a boolean) is multiplied; an integer
  times a float is converted to a float first, which raises \<^verbatim>\<open>OverflowError\<close> beyond
  the float range; a string or a list is repeated by an integer and rejects a float;
  \<^verbatim>\<open>None\<close> and a dictionary raise \<^verbatim>\<open>TypeError\<close>. Floats are taken as exact reals.
\<close>

definition times_int :: "pyval \<Rightarrow> int \<Rightarrow> exn + pyval" where
  "times_int x n =
     (case x of
        PInt i \<Rightarrow> Inr (PInt (i * n))
      | PFloat r \<Rightarrow> Inr (PFloat (r * real_of_int n))
      | PBool b \<Rightarrow> Inr (PInt ((if b then 1 else 0) * n))
      | PStr s \<Rightarrow> Inr (PStr (concat (replicate (nat n) s)))
      | PList xs \<Rightarrow> Inr (PList (concat (replicate (nat n) xs)))
      | _ \<Rightarrow> Inl TypeError)"

definition times_float :: "pyval \<Rightarrow> real \<Rightarrow> exn + pyval" where
  "times_float x r =
     (case x of
        PInt i \<Rightarrow> and_then (int_to_float i) (\<lambda>q. Inr (PFloat (q * r)))
      | PFloat q \<Rightarrow> Inr (PFloat (q * r))
      | PBool b \<Rightarrow> Inr (PFloat ((if b then 1 else 0) * r))
      | _ \<Rightarrow> Inl TypeError)"

text \<open>The dictionary comprehension that drops the entries whose value is \<^verbatim>\<open>None\<close>.\<close>

definition filter_none :: "pydict \<Rightarrow> pydict" where
  "filter_none d = filter (\<lambda>kv. snd kv \<noteq> PNone) d"

text \<open>\<^verbatim>\<open>all(feat in mapping for feat in required)\<close>.\<close>

definition all_present :: "pydict \<Rightarrow> string list \<Rightarrow> bool" where
  "all_present mapping required = list_all (\<lambda>feat. map_of mapping feat \<noteq> None) required"

text \<open>The predictor inputs derived from the two sections of a location.\<close>

definition network_input :: "pyval \<Rightarrow> exn + pydict" where
  "network_input connectivity =
     and_then (py_get connectivity ''networkType'' PNone) (\<lambda>network_type.
     and_then (py_get connectivity ''signalStrength'' PNone) (\<lambda>signal_strength.
     and_then (py_get connectivity ''bandwidth'' PNone) (\<lambda>download_speed.
     and_then (py_get connectivity ''latency'' PNone) (\<lambda>latency.
       Inr [(''network_type'', network_type), (''signal_strength'', signal_strength),
            (''download_speed'', download_speed), (''latency'', latency)]))))"

definition social_input :: "pyval \<Rightarrow> exn + pydict" where
  "social_input social =
     and_then (py_get social ''volume'' PNone) (\<lambda>total_posts.
     and_then (py_get social ''volume'' (PInt 0)) (\<lambda>volume.
     and_then (times_int volume 5) (\<lambda>total_likes.
     and_then (times_float volume (3/10)) (\<lambda>total_retweets.
     and_then (times_float volume (7/10)) (\<lambda>unique_users.
       Inr [(''total_posts'', total_posts), (''total_likes'', total_likes),
            (''total_retweets'', total_retweets), (''unique_users'', unique_users)])))))"

text \<open>
  \<^verbatim>\<open>enhanced_data[section][key] = value\<close> for each of the given pairs: the section of
  the copy is the dictionary the input was derived from.
\<close>

definition set_in_section :: "pydict \<Rightarrow> string \<Rightarrow> (string \<times> pyval) list \<Rightarrow> exn + pydict" where
  "set_in_section enhanced_data section kvs =
     (case map_of enhanced_data section of
        Some (PDict d) \<Rightarrow>
          Inr (dict_set enhanced_data section
                 (PDict (fold (\<lambda>kv acc. dict_set acc (fst kv) (snd kv)) kvs d)))
      | Some _ \<Rightarrow> Inl TypeError
      | None \<Rightarrow> Inl KeyError)"

definition confidence_value :: "real option \<Rightarrow> pyval" where
  "confidence_value c = (case c of None \<Rightarrow> PNone | Some r \<Rightarrow> PFloat r)"

text \<open>
  One of the two blocks of \<^verbatim>\<open>enhance_location_data\<close>: \<open>section\<close> is the key of the
  location (\<^verbatim>\<open>connectivity\<close>, \<^verbatim>\<open>social\<close>), \<open>dataset_type\<close> the model
  (\<^verbatim>\<open>network\<close>, \<^verbatim>\<open>social\<close>), \<open>derive\<close> the input mapping and \<open>field\<close> the name
  under which the prediction is stored. Without the section or without a
  configuration nothing happens; with a required feature missing the block only logs
  a warning; a prediction that is an error is dropped.
\<close>

definition enhance_section ::
  "files \<Rightarrow> string \<Rightarrow> string \<Rightarrow> (pyval \<Rightarrow> exn + pydict) \<Rightarrow> string \<Rightarrow> enhancer \<Rightarrow> pydict \<Rightarrow> pydict \<Rightarrow>
   exn + pydict \<times> enhancer" where
  "enhance_section fs section dataset_type derive field self location_data enhanced_data =
     (case map_of location_data section of
        None \<Rightarrow> Inr (enhanced_data, self)
      | Some sec \<Rightarrow>
          (case datasets self dataset_type of
             None \<Rightarrow> Inr (enhanced_data, self)
           | Some dataset_info \<Rightarrow>
               and_then (derive sec) (\<lambda>derived.
                 if all_present (filter_none derived) (features dataset_info)
                 then
                   (case predict fs self dataset_type (filter_none derived) of
                      (Prediction p c, self') \<Rightarrow>
                        and_then (set_in_section enhanced_data section
                                    [(field, p), (''prediction_confidence'', confidence_value c)])
                          (\<lambda>e. Inr (e, self'))
                    | (PredictionError err, self') \<Rightarrow> Inr (enhanced_data, self'))
                 else Inr (enhanced_data, self))))"

text \<open>
  \<^verbatim>\<open>enhance_location_data\<close>. \<open>now_iso\<close> is \<^verbatim>\<open>datetime.now().isoformat()\<close>, the
  ISO-8601 text of the clock at the time of the call.
\<close>

definition enhance_location_data ::
  "files \<Rightarrow> string \<Rightarrow> enhancer \<Rightarrow> pydict \<Rightarrow> exn + pydict \<times> enhancer" where
  "enhance_location_data fs now_iso self location_data =
     and_then (enhance_section fs ''connectivity'' ''network'' network_input ''reliability_score''
                 self location_data location_data) (\<lambda>(enhanced_data, self1).
     and_then (enhance_section fs ''social'' ''social'' social_input ''enhanced_sentiment''
                 self1 location_data enhanced_data) (\<lambda>(enhanced_data, self2).
       Inr (dict_set (dict_set enhanced_data ''enhanced_by_deepmind'' (PBool True))
              ''enhancement_timestamp'' (PStr now_iso), self2)))"

text \<open>
  A location whose sections have the types the code expects: \<^verbatim>\<open>connectivity\<close> and
  \<^verbatim>\<open>social\<close>, where present, are dictionaries, and the \<^verbatim>\<open>volume\<close> of \<^verbatim>\<open>social\<close>,
  where present, is a number that can be multiplied by a float: a float, a boolean,
  or an integer within the float range.
\<close>

fun is_volume :: "pyval \<Rightarrow> bool" where
  "is_volume (PInt i) = fits_float i"
| "is_volume (PFloat r) = True"
| "is_volume (PBool b) = True"
| "is_volume _ = False"

definition location_typed :: "pydict \<Rightarrow> bool" where
  "location_typed location_data =
     ((case map_of location_data ''connectivity'' of None \<Rightarrow> True | Some v \<Rightarrow> is_dict v) \<and>
      (case map_of location_data ''social'' of
         None \<Rightarrow> True
       | Some (PDict s) \<Rightarrow> (case map_of s ''volume'' of None \<Rightarrow> True | Some v \<Rightarrow> is_volume v)
       | Some _ \<Rightarrow> False))"

text \<open>A location without signal strength and without a social volume.\<close>

definition partial_location :: pydict where
  "partial_location =
     [(''name'', PStr ''Lisbon''),
      (''connectivity'', PDict [(''networkType'', PStr ''5G''), (''latency'', PInt 20)]),
      (''social'', PDict [(''sentiment'', PFloat (1/2))])]"

chapter \<open>Properties\<close>

text \<open>The recursive equations of the loops are unfolded by hand in the proofs.\<close>

declare replace_all.simps [simp del]

section \<open>Embedding pipeline: one record per chunk, whole batches fail\<close>

declare embed_loop.simps [simp del]

lemma length_process_batch: "length (process_batch st rid batch outcome) = length batch"
  by (simp add: process_batch_def Let_def split: embed_outcome.splits option.splits)

lemma embed_loop_prefix:
  "j < length results \<Longrightarrow> embed_loop call st rid cs i results ! j = results ! j"
proof (induction call st rid cs i results rule: embed_loop.induct)
  case (1 call st rid cs i results)
  show ?case
  proof (cases "i < length cs")
    case True
    with 1 show ?thesis
      by (subst embed_loop.simps) (simp add: nth_append Let_def)
  next
    case False
    then show ?thesis by (subst embed_loop.simps) simp
  qed
qed

lemma div_in_batch: "batch_size * q \<le> j \<Longrightarrow> j < batch_size * q + batch_size \<Longrightarrow> j div batch_size = q"
  by (simp add: batch_size_def)

lemma mod_in_batch:
  assumes "batch_size * q \<le> j" and "j < batch_size * q + batch_size"
  shows "j mod batch_size = j - batch_size * q"
proof -
  from assms obtain r where r: "j = batch_size * q + r" "r < batch_size"
    by (metis le_Suc_ex nat_add_left_cancel_less)
  then show ?thesis by simp
qed

lemma embed_loop_nth:
  "length results = i \<Longrightarrow> batch_size dvd i \<Longrightarrow> i \<le> j \<Longrightarrow> j < length cs \<Longrightarrow>
   embed_loop call st rid cs i results ! j =
   process_batch st rid (batch_of cs (j div batch_size))
     (call (j div batch_size) (batch_of cs (j div batch_size))) ! (j mod batch_size)"
proof (induction call st rid cs i results rule: embed_loop.induct)
  case (1 call st rid cs i results)
  let ?batch = "take batch_size (drop i cs)"
  let ?pb = "process_batch st rid ?batch (call (i div batch_size) ?batch)"
  note len_i = \<open>length results = i\<close> and dvd_i = \<open>batch_size dvd i\<close>
    and i_le = \<open>i \<le> j\<close> and j_lt = \<open>j < length cs\<close>
  from i_le j_lt have lt: "i < length cs" by simp
  have unfold: "embed_loop call st rid cs i results =
      embed_loop call st rid cs (i + batch_size) (results @ ?pb)"
    using lt by (subst embed_loop.simps) (simp add: Let_def)
  from dvd_i obtain q where q: "i = batch_size * q" by (auto simp: dvd_def)
  have idiv: "i div batch_size = q"
    unfolding q by (simp add: batch_size_def)
  show ?case
  proof (cases "j < i + batch_size")
    case True
    have jdiv: "j div batch_size = q"
      using True i_le unfolding q by (rule_tac div_in_batch)
    have jmod: "j mod batch_size = j - i"
      using True i_le unfolding q by (rule_tac mod_in_batch)
    have b: "batch_of cs q = ?batch"
      unfolding q batch_of_def by (simp only: mult.commute)
    have "length ?pb = length cs - i \<or> length ?pb = batch_size"
      by (simp add: length_process_batch min_def)
    with True j_lt len_i have "j < length (results @ ?pb)"
      by auto
    then have "embed_loop call st rid cs i results ! j = (results @ ?pb) ! j"
      unfolding unfold by (rule embed_loop_prefix)
    also have "\<dots> = ?pb ! (j - i)"
      using len_i i_le by (simp add: nth_append)
    finally show ?thesis
      by (simp only: jdiv jmod b idiv)
  next
    case False
    have len: "length (results @ ?pb) = i + batch_size"
      using False len_i j_lt by (simp add: length_process_batch)
    have dv: "batch_size dvd i + batch_size"
      using dvd_i by simp
    have le: "i + batch_size \<le> j"
      using False by simp
    show ?thesis
      unfolding unfold by (rule "1.IH" [OF lt refl len dv le j_lt])
  qed
qed


lemma text_chunk_process_batch: "map text_chunk (process_batch st rid batch outcome) = batch"
  by (simp add: process_batch_def Let_def none_record_def vector_record_def comp_def
      split: embed_outcome.splits option.splits)

lemma embed_loop_chunks:
  "map text_chunk (embed_loop call st rid cs i results) = map text_chunk results @ drop i cs"
proof (induction call st rid cs i results rule: embed_loop.induct)
  case (1 call st rid cs i results)
  show ?case
  proof (cases "i < length cs")
    case True
    have "take batch_size (drop i cs) @ drop (i + batch_size) cs = drop i cs"
      by (metis append_take_drop_id drop_drop add.commute)
    with 1 True show ?thesis
      by (subst embed_loop.simps) (simp add: Let_def text_chunk_process_batch)
  next
    case False
    then show ?thesis by (subst embed_loop.simps) simp
  qed
qed

lemma embedding_vector_records:
  "length vs = length batch \<Longrightarrow>
   map (embedding \<circ> vector_record st rid) (zip batch vs) = map Some vs"
  by (induction vs batch rule: list_induct2) (simp_all add: vector_record_def)

lemma process_batch_failed:
  "batch_failed outcome batch \<Longrightarrow> j < length batch \<Longrightarrow>
   embedding (process_batch st rid batch outcome ! j) = None"
  by (auto simp: batch_failed_def process_batch_def none_record_def
      split: embed_outcome.splits option.splits)

lemma process_batch_vectors:
  "length vs = length batch \<Longrightarrow> j < length batch \<Longrightarrow>
   embedding (process_batch st rid batch (Response (Some vs)) ! j) = Some (vs ! j)"
  by (simp add: process_batch_def vector_record_def)

lemma generate_chunks:
  "map text_chunk (generate_embeddings_for_chunks env cs st rid) = cs"
  by (simp add: generate_embeddings_for_chunks_def embed_loop_chunks none_record_def comp_def)

lemma generate_nth:
  assumes "api_usable env" and "j < length cs"
  shows "generate_embeddings_for_chunks env cs st rid ! j =
     process_batch st rid (batch_of cs (j div batch_size))
       (embed_content env (j div batch_size) (batch_of cs (j div batch_size))) ! (j mod batch_size)"
proof -
  have "generate_embeddings_for_chunks env cs st rid = embed_loop (embed_content env) st rid cs 0 []"
    using assms(1) by (auto simp: generate_embeddings_for_chunks_def api_usable_def)
  moreover have "embed_loop (embed_content env) st rid cs 0 [] ! j =
     process_batch st rid (batch_of cs (j div batch_size))
       (embed_content env (j div batch_size) (batch_of cs (j div batch_size))) ! (j mod batch_size)"
    by (rule embed_loop_nth) (use assms(2) in simp_all)
  ultimately show ?thesis by simp
qed

lemma mod_lt_batch:
  assumes "j < length cs"
  shows "j mod batch_size < length (batch_of cs (j div batch_size))"
proof -
  have "j mod batch_size < batch_size" by (simp add: batch_size_def)
  moreover have "j div batch_size * batch_size + j mod batch_size = j" by simp
  then have "j mod batch_size < length cs - j div batch_size * batch_size"
    using assms by linarith
  ultimately show ?thesis by (simp add: batch_of_def)
qed

lemma generate_150:
  assumes "api_usable env" and "length cs = 150"
    and "embed_content env 0 (take 100 cs) = Response (Some vs)" and "length vs = 100"
    and "batch_failed (embed_content env 1 (drop 100 cs)) (drop 100 cs)"
  shows "map embedding (generate_embeddings_for_chunks env cs st rid) =
     map Some vs @ replicate 50 None"
proof -
  have fail: "map embedding (process_batch st rid (drop 100 cs) (embed_content env 1 (drop 100 cs))) =
      replicate 50 None"
    using assms(2,5)
    by (auto simp: batch_failed_def process_batch_def none_record_def comp_def map_replicate_const
        split: embed_outcome.splits option.splits)
  have ok: "map embedding (process_batch st rid (take 100 cs) (Response (Some vs))) = map Some vs"
    using assms(2,4)
    by (simp add: process_batch_def embedding_vector_records)
  have "generate_embeddings_for_chunks env cs st rid = embed_loop (embed_content env) st rid cs 0 []"
    using assms(1) by (auto simp: generate_embeddings_for_chunks_def api_usable_def)
  also have "\<dots> = process_batch st rid (take 100 cs) (Response (Some vs)) @
      process_batch st rid (drop 100 cs) (embed_content env 1 (drop 100 cs))"
    using assms(2,3)
    by (simp add: embed_loop.simps [of _ _ _ _ 0] embed_loop.simps [of _ _ _ _ 100]
        embed_loop.simps [of _ _ _ _ 200] batch_size_def Let_def)
  finally show ?thesis by (simp only: map_append fail ok)
qed


text \<open>
  Claim C2. \<^verbatim>\<open>generate_embeddings_for_chunks\<close> returns one record per input chunk, in
  the order of the chunks, whatever the environment. When the API key is set and the
  SDK configures, chunk \<open>j\<close> belongs to batch \<open>j div 100\<close>, the slice
  \<open>text_chunks[100 * k : 100 * k + 100]\<close>: if the call for that batch raises or returns
  a number of vectors other than the size of the batch, the record of every chunk of
  the batch has embedding \<open>None\<close>; if it returns as many vectors as chunks, chunk \<open>j\<close>
  gets vector \<open>j mod 100\<close> of that call. Each batch is judged by its own call only, so
  a failed batch does not stop the later ones. In particular, 150 chunks whose first
  call returns 100 vectors and whose second call fails give 100 records with these
  vectors followed by 50 records with \<open>None\<close>.
\<close>

theorem generate_embeddings_per_batch:
  "map text_chunk (generate_embeddings_for_chunks env cs st rid) = cs \<and>
   (api_usable env \<longrightarrow>
     (\<forall>j < length cs.
        let k = j div batch_size; batch = batch_of cs k; outcome = embed_content env k batch;
            r = generate_embeddings_for_chunks env cs st rid ! j
        in (batch_failed outcome batch \<longrightarrow> embedding r = None) \<and>
           (\<forall>vs. outcome = Response (Some vs) \<and> length vs = length batch \<longrightarrow>
              embedding r = Some (vs ! (j mod batch_size))))) \<and>
   (api_usable env \<and> length cs = 150 \<and>
    embed_content env 0 (take 100 cs) = Response (Some ws) \<and> length ws = 100 \<and>
    batch_failed (embed_content env 1 (drop 100 cs)) (drop 100 cs) \<longrightarrow>
      map embedding (generate_embeddings_for_chunks env cs st rid) =
      map Some ws @ replicate 50 None)"
proof (intro conjI impI allI)
  show "map text_chunk (generate_embeddings_for_chunks env cs st rid) = cs"
    by (rule generate_chunks)
next
  fix j
  assume usable: "api_usable env" and j: "j < length cs"
  let ?k = "j div batch_size"
  let ?batch = "batch_of cs ?k"
  let ?outcome = "embed_content env ?k ?batch"
  have nth: "generate_embeddings_for_chunks env cs st rid ! j =
      process_batch st rid ?batch ?outcome ! (j mod batch_size)"
    using usable j by (rule generate_nth)
  have m: "j mod batch_size < length ?batch"
    using j by (rule mod_lt_batch)
  have failed: "batch_failed ?outcome ?batch \<longrightarrow>
      embedding (generate_embeddings_for_chunks env cs st rid ! j) = None"
    using m by (simp add: nth process_batch_failed)
  have vectors: "\<forall>vs. ?outcome = Response (Some vs) \<and> length vs = length ?batch \<longrightarrow>
      embedding (generate_embeddings_for_chunks env cs st rid ! j) = Some (vs ! (j mod batch_size))"
    using m by (simp add: nth process_batch_vectors)
  from failed vectors
  show "let k = j div batch_size; batch = batch_of cs k; outcome = embed_content env k batch;
            r = generate_embeddings_for_chunks env cs st rid ! j
        in (batch_failed outcome batch \<longrightarrow> embedding r = None) \<and>
           (\<forall>vs. outcome = Response (Some vs) \<and> length vs = length batch \<longrightarrow>
              embedding r = Some (vs ! (j mod batch_size)))"
    unfolding Let_def by (rule conjI)
next
  assume "api_usable env \<and> length cs = 150 \<and>
    embed_content env 0 (take 100 cs) = Response (Some ws) \<and> length ws = 100 \<and>
    batch_failed (embed_content env 1 (drop 100 cs)) (drop 100 cs)"
  then show "map embedding (generate_embeddings_for_chunks env cs st rid) =
      map Some ws @ replicate 50 None"
    by (intro generate_150) simp_all
qed

text \<open>
  The theorem at 150 chunks, the second call raising: the chunks come back in order,
  record 99 carries its vector, record 100 carries \<open>None\<close>.
\<close>

theorem generate_embeddings_per_batch_witness:
  "map text_chunk (generate_embeddings_for_chunks demo_env demo_chunks ''location_memories'' ''42'')
     = demo_chunks \<and>
   embedding (generate_embeddings_for_chunks demo_env demo_chunks ''location_memories'' ''42'' ! 99)
     = Some 1 \<and>
   embedding (generate_embeddings_for_chunks demo_env demo_chunks ''location_memories'' ''42'' ! 100)
     = None \<and>
   map embedding (generate_embeddings_for_chunks demo_env demo_chunks ''location_memories'' ''42'')
     = replicate 100 (Some 1) @ replicate 50 None"
proof -
  note inst = generate_embeddings_per_batch
    [of demo_env demo_chunks "''location_memories''" "''42''" "replicate 100 1"]
  have usable: "api_usable demo_env"
    by (simp add: api_usable_def demo_env_def)
  have len: "length demo_chunks = 150"
    by (simp add: demo_chunks_def)
  have t: "take 100 demo_chunks = replicate 100 ''a''" and d: "drop 100 demo_chunks = replicate 50 ''bb''"
    by (simp_all add: demo_chunks_def)
  have first: "embed_content demo_env 0 (take 100 demo_chunks) = Response (Some (replicate 100 1))"
    by (simp add: t demo_env_def)
  have second: "batch_failed (embed_content demo_env 1 (drop 100 demo_chunks)) (drop 100 demo_chunks)"
    by (simp add: demo_env_def batch_failed_def)
  have b0: "batch_of demo_chunks 0 = replicate 100 ''a''" and b1: "batch_of demo_chunks 1 = replicate 50 ''bb''"
    by (simp_all add: batch_of_def batch_size_def t d)
  from inst have c1: "map text_chunk
      (generate_embeddings_for_chunks demo_env demo_chunks ''location_memories'' ''42'') = demo_chunks"
    by (rule conjunct1)
  from inst usable have per: "\<forall>j < length demo_chunks.
        let k = j div batch_size; batch = batch_of demo_chunks k; outcome = embed_content demo_env k batch;
            r = generate_embeddings_for_chunks demo_env demo_chunks ''location_memories'' ''42'' ! j
        in (batch_failed outcome batch \<longrightarrow> embedding r = None) \<and>
           (\<forall>vs. outcome = Response (Some vs) \<and> length vs = length batch \<longrightarrow>
              embedding r = Some (vs ! (j mod batch_size)))"
    by blast
  from per [THEN spec, of 99] len have c2: "embedding
      (generate_embeddings_for_chunks demo_env demo_chunks ''location_memories'' ''42'' ! 99) = Some 1"
    by (simp add: Let_def batch_size_def b0 demo_env_def)
  from per [THEN spec, of 100] len have c3: "embedding
      (generate_embeddings_for_chunks demo_env demo_chunks ''location_memories'' ''42'' ! 100) = None"
    by (simp add: Let_def batch_size_def b1 demo_env_def batch_failed_def)
  from inst usable len first second have c4: "map embedding
      (generate_embeddings_for_chunks demo_env demo_chunks ''location_memories'' ''42'')
     = replicate 100 (Some 1) @ replicate 50 None"
    by simp
  from c1 c2 c3 c4 show ?thesis by simp
qed

section \<open>Chunk synthesis: one chunk per present section, in schema order\<close>

declare replace_all.simps [simp del]

lemma append_if_Inr:
  "append_if c ch chunks = Inr chunks' \<Longrightarrow>
   (if c then \<exists>x. ch = Inr x \<and> chunks' = chunks @ [x] else chunks' = chunks)"
  by (auto simp: append_if_def and_then_def split: sum.splits if_splits)

lemma traits_chunk_section:
  "traits_chunk B name traits = Inr c \<Longrightarrow> chunk_section_of c = Some Traits"
  by (auto simp: traits_chunk_def and_then_def chunk_section_of_def split: pyval.splits sum.splits)

lemma voice_chunk_section:
  "voice_chunk B voice_char = Inr c \<Longrightarrow> chunk_section_of c = Some VoiceCharacteristics"
  by (auto simp: voice_chunk_def and_then_def chunk_section_of_def split: sum.splits)

lemma cultural_chunk_section:
  "cultural_chunk B name cultural = Inr c \<Longrightarrow> chunk_section_of c = Some CulturalInfluence"
  by (auto simp: cultural_chunk_def and_then_def chunk_section_of_def split: sum.splits)

lemma voice_profile_chunk_section:
  "voice_profile_chunk B name vp = Inr c \<Longrightarrow> chunk_section_of c = Some VoiceProfile"
  by (auto simp: voice_profile_chunk_def and_then_def chunk_section_of_def split: sum.splits)

lemma identity_chunk_section: "chunk_section_of (identity_chunk B record) = Some Identity"
  by (simp add: identity_chunk_def chunk_section_of_def Let_def split: prod.splits)


lemma personality_chunks_sections:
  assumes "personality_chunks B name pdv chunks = Inr chunks'"
  shows "map chunk_section_of chunks' =
     map chunk_section_of chunks @
     map Some (filter (\<lambda>sec. truthy (section_of pdv (case sec of Traits \<Rightarrow> ''traits''
         | VoiceCharacteristics \<Rightarrow> ''voiceCharacteristics'' | _ \<Rightarrow> ''culturalInfluence'')))
       [Traits, VoiceCharacteristics, CulturalInfluence])"
proof (cases "\<exists>pd. pdv = PDict pd \<and> pd \<noteq> []")
  case False
  then have "chunks' = chunks"
    using assms by (auto simp: personality_chunks_def split: pyval.splits if_splits)
  moreover have "section_of pdv key = PDict []" for key
    using False by (auto simp: section_of_def dict_get_def split: pyval.splits)
  ultimately show ?thesis by simp
next
  case True
  then obtain pd where pd: "pdv = PDict pd" "pd \<noteq> []" by blast
  let ?traits = "dict_get pd ''traits'' (PDict [])"
  let ?voice = "dict_get pd ''voiceCharacteristics'' (PDict [])"
  let ?cultural = "dict_get pd ''culturalInfluence'' (PDict [])"
  from assms pd obtain c1 c2 where
    s1: "append_if (truthy ?traits) (traits_chunk B name ?traits) chunks = Inr c1" and
    s2: "append_if (truthy ?voice) (voice_chunk B ?voice) c1 = Inr c2" and
    s3: "append_if (truthy ?cultural) (cultural_chunk B name ?cultural) c2 = Inr chunks'"
    by (auto simp: personality_chunks_def Let_def and_then_def split: sum.splits)
  have m1: "map chunk_section_of c1 =
      map chunk_section_of chunks @ (if truthy ?traits then [Some Traits] else [])"
    using append_if_Inr [OF s1] traits_chunk_section [of B name ?traits]
    by (auto split: if_splits)
  have m2: "map chunk_section_of c2 =
      map chunk_section_of c1 @ (if truthy ?voice then [Some VoiceCharacteristics] else [])"
    using append_if_Inr [OF s2] voice_chunk_section [of B ?voice]
    by (auto split: if_splits)
  have m3: "map chunk_section_of chunks' =
      map chunk_section_of c2 @ (if truthy ?cultural then [Some CulturalInfluence] else [])"
    using append_if_Inr [OF s3] cultural_chunk_section [of B name ?cultural]
    by (auto split: if_splits)
  show ?thesis
    by (simp add: m1 m2 m3 pd section_of_def)
qed

lemma chunk_sections:
  assumes "process_location_memory_to_chunks B record = Inr chunks"
  shows "map chunk_section_of chunks =
     map Some (Identity # filter (section_present record) optional_sections)"
proof -
  let ?name = "py_str B (dict_get record ''location_name'' (PStr ''Unknown Location''))"
  let ?pdv = "dict_get record ''personality_data'' PNone"
  let ?vpv = "dict_get record ''voice_profile'' PNone"
  from assms obtain c1 where
    s1: "personality_chunks B ?name ?pdv [identity_chunk B record] = Inr c1" and
    s2: "(case ?vpv of PDict vp \<Rightarrow> append_if (vp \<noteq> []) (voice_profile_chunk B ?name vp) c1
          | _ \<Rightarrow> Inr c1) = Inr chunks"
    by (auto simp: process_location_memory_to_chunks_def Let_def and_then_def split: sum.splits)
  have m1: "map chunk_section_of c1 =
     Some Identity #
     map Some (filter (section_present record) [Traits, VoiceCharacteristics, CulturalInfluence])"
    using personality_chunks_sections [OF s1]
    by (simp add: identity_chunk_section personality_section_def)
  have m2: "map chunk_section_of chunks =
     map chunk_section_of c1 @ (if section_present record VoiceProfile then [Some VoiceProfile] else [])"
  proof (cases ?vpv)
    case (PDict vp)
    with s2 have "append_if (vp \<noteq> []) (voice_profile_chunk B ?name vp) c1 = Inr chunks" by simp
    from append_if_Inr [OF this] PDict voice_profile_chunk_section [of B ?name vp]
    show ?thesis
      by (auto split: if_splits)
  qed (use s2 in simp_all)
  show ?thesis
    by (simp add: m1 m2 optional_sections_def)
qed

lemma trait_parts_total:
  "list_all (\<lambda>kv. is_percentage (snd kv)) t \<Longrightarrow> \<exists>ps. trait_parts B t = Inr ps"
proof (induction t)
  case Nil
  then show ?case by simp
next
  case (Cons kv t)
  obtain k v where kv: "kv = (k, v)" by (cases kv)
  from Cons.prems kv have "is_percentage v" by simp
  then obtain p where "percent B v = Inr p"
    by (cases v) (simp_all add: percent_def int_to_float_def and_then_def)
  moreover from Cons obtain ps where "trait_parts B t = Inr ps" by auto
  ultimately show ?case by (simp add: kv and_then_def)
qed

lemma percent_total: "is_percentage v \<Longrightarrow> \<exists>p. percent B v = Inr p"
  by (cases v) (simp_all add: percent_def int_to_float_def and_then_def)

lemma percent_overflow: "\<not> fits_float (i * 100) \<Longrightarrow> percent B (PInt i) = Inl OverflowError"
  by (simp add: percent_def int_to_float_def and_then_def)

lemma traits_chunk_total:
  assumes "traits_ok traits"
  shows "\<exists>c. traits_chunk B name traits = Inr c"
proof -
  from assms obtain t where t: "traits = PDict t" "list_all (\<lambda>kv. is_percentage (snd kv)) t"
    by (cases traits) (simp_all add: traits_ok_def)
  from trait_parts_total [OF t(2)] obtain ps where "trait_parts B t = Inr ps" by blast
  then show ?thesis by (simp add: t traits_chunk_def and_then_def)
qed

lemma voice_chunk_total: "is_dict voice_char \<Longrightarrow> \<exists>c. voice_chunk B voice_char = Inr c"
  by (cases voice_char) (simp_all add: voice_chunk_def py_get_def and_then_def)

lemma cultural_chunk_total: "languages_ok cultural \<Longrightarrow> \<exists>c. cultural_chunk B name cultural = Inr c"
  by (cases cultural)
     (auto simp: languages_ok_def cultural_chunk_def py_get_def and_then_def join_value_def
       split: pyval.splits option.splits)

lemma voice_profile_chunk_total:
  "is_percentage (dict_get vp ''stability'' (PInt 0)) \<Longrightarrow>
   is_percentage (dict_get vp ''similarityBoost'' (PInt 0)) \<Longrightarrow>
   \<exists>c. voice_profile_chunk B name vp = Inr c"
proof -
  assume "is_percentage (dict_get vp ''stability'' (PInt 0))"
    and "is_percentage (dict_get vp ''similarityBoost'' (PInt 0))"
  then obtain p q where "percent B (dict_get vp ''stability'' (PInt 0)) = Inr p"
    and "percent B (dict_get vp ''similarityBoost'' (PInt 0)) = Inr q"
    using percent_total by blast
  then show ?thesis by (simp add: voice_profile_chunk_def and_then_def)
qed

lemma append_if_total:
  "(c \<Longrightarrow> \<exists>x. ch = Inr x) \<Longrightarrow> \<exists>chunks'. append_if c ch chunks = Inr chunks'"
  by (auto simp: append_if_def and_then_def)

lemma personality_chunks_total:
  assumes "truthy (section_of pdv ''traits'') \<longrightarrow> traits_ok (section_of pdv ''traits'')"
    and "truthy (section_of pdv ''voiceCharacteristics'') \<longrightarrow>
         is_dict (section_of pdv ''voiceCharacteristics'')"
    and "truthy (section_of pdv ''culturalInfluence'') \<longrightarrow>
         languages_ok (section_of pdv ''culturalInfluence'')"
  shows "\<exists>chunks'. personality_chunks B name pdv chunks = Inr chunks'"
proof (cases "\<exists>pd. pdv = PDict pd \<and> pd \<noteq> []")
  case False
  then show ?thesis
    by (auto simp: personality_chunks_def split: pyval.splits)
next
  case True
  then obtain pd where pd: "pdv = PDict pd" "pd \<noteq> []" by blast
  let ?traits = "dict_get pd ''traits'' (PDict [])"
  let ?voice = "dict_get pd ''voiceCharacteristics'' (PDict [])"
  let ?cultural = "dict_get pd ''culturalInfluence'' (PDict [])"
  from assms(1) pd obtain c1 where
    s1: "append_if (truthy ?traits) (traits_chunk B name ?traits) chunks = Inr c1"
    using append_if_total [of "truthy ?traits" "traits_chunk B name ?traits" chunks]
      traits_chunk_total [of ?traits B name]
    by (auto simp: section_of_def)
  from assms(2) pd obtain c2 where
    s2: "append_if (truthy ?voice) (voice_chunk B ?voice) c1 = Inr c2"
    using append_if_total [of "truthy ?voice" "voice_chunk B ?voice" c1]
      voice_chunk_total [of ?voice B]
    by (auto simp: section_of_def)
  from assms(3) pd obtain c3 where
    s3: "append_if (truthy ?cultural) (cultural_chunk B name ?cultural) c2 = Inr c3"
    using append_if_total [of "truthy ?cultural" "cultural_chunk B name ?cultural" c2]
      cultural_chunk_total [of ?cultural B name]
    by (auto simp: section_of_def)
  show ?thesis
    by (simp add: personality_chunks_def pd Let_def s1 s2 s3 and_then_def)
qed

lemma chunks_total:
  assumes "schema_typed record"
  shows "\<exists>chunks. process_location_memory_to_chunks B record = Inr chunks"
proof -
  let ?name = "py_str B (dict_get record ''location_name'' (PStr ''Unknown Location''))"
  let ?pdv = "dict_get record ''personality_data'' PNone"
  let ?vpv = "dict_get record ''voice_profile'' PNone"
  from assms obtain c1 where
    s1: "personality_chunks B ?name ?pdv [identity_chunk B record] = Inr c1"
    using personality_chunks_total [of ?pdv B ?name "[identity_chunk B record]"]
    by (auto simp: schema_typed_def personality_section_def)
  have "\<exists>chunks. (case ?vpv of PDict vp \<Rightarrow> append_if (vp \<noteq> []) (voice_profile_chunk B ?name vp) c1
          | _ \<Rightarrow> Inr c1) = Inr chunks"
  proof (cases ?vpv)
    case (PDict vp)
    with assms have "\<exists>c. voice_profile_chunk B ?name vp = Inr c"
      by (intro voice_profile_chunk_total) (simp_all add: schema_typed_def)
    then show ?thesis
      using PDict by (simp add: append_if_total)
  qed simp_all
  then show ?thesis
    by (simp add: process_location_memory_to_chunks_def Let_def s1 and_then_def)
qed


lemma append_if_extends:
  "append_if c ch chunks = Inr chunks' \<Longrightarrow> \<exists>rest. chunks' = chunks @ rest"
  by (auto simp: append_if_def and_then_def split: sum.splits if_splits)

lemma personality_chunks_extends:
  assumes "personality_chunks B name pdv chunks = Inr chunks'"
  shows "\<exists>rest. chunks' = chunks @ rest"
proof (cases "\<exists>pd. pdv = PDict pd \<and> pd \<noteq> []")
  case False
  then have "chunks' = chunks"
    using assms by (auto simp: personality_chunks_def split: pyval.splits if_splits)
  then show ?thesis by simp
next
  case True
  then obtain pd where pd: "pdv = PDict pd" "pd \<noteq> []" by blast
  let ?traits = "dict_get pd ''traits'' (PDict [])"
  let ?voice = "dict_get pd ''voiceCharacteristics'' (PDict [])"
  let ?cultural = "dict_get pd ''culturalInfluence'' (PDict [])"
  from assms pd obtain c1 c2 where
    s1: "append_if (truthy ?traits) (traits_chunk B name ?traits) chunks = Inr c1" and
    s2: "append_if (truthy ?voice) (voice_chunk B ?voice) c1 = Inr c2" and
    s3: "append_if (truthy ?cultural) (cultural_chunk B name ?cultural) c2 = Inr chunks'"
    by (auto simp: personality_chunks_def Let_def and_then_def split: sum.splits)
  from append_if_extends [OF s1] append_if_extends [OF s2] append_if_extends [OF s3]
  show ?thesis by auto
qed

lemma chunks_first:
  assumes "process_location_memory_to_chunks B record = Inr chunks"
  shows "\<exists>rest. chunks = identity_chunk B record # rest"
proof -
  let ?name = "py_str B (dict_get record ''location_name'' (PStr ''Unknown Location''))"
  let ?pdv = "dict_get record ''personality_data'' PNone"
  let ?vpv = "dict_get record ''voice_profile'' PNone"
  from assms obtain c1 where
    s1: "personality_chunks B ?name ?pdv [identity_chunk B record] = Inr c1" and
    s2: "(case ?vpv of PDict vp \<Rightarrow> append_if (vp \<noteq> []) (voice_profile_chunk B ?name vp) c1
          | _ \<Rightarrow> Inr c1) = Inr chunks"
    by (auto simp: process_location_memory_to_chunks_def Let_def and_then_def split: sum.splits)
  from personality_chunks_extends [OF s1] obtain r1 where r1: "c1 = identity_chunk B record # r1"
    by auto
  have "\<exists>rest. chunks = c1 @ rest"
  proof (cases ?vpv)
    case (PDict vp)
    with s2 have "append_if (vp \<noteq> []) (voice_profile_chunk B ?name vp) c1 = Inr chunks" by simp
    then show ?thesis by (rule append_if_extends)
  qed (use s2 in simp_all)
  with r1 show ?thesis by auto
qed

lemma identity_chunk_text:
  "identity_chunk B record =
     ''Location: '' @ py_str B (dict_get record ''location_name'' (PStr ''Unknown Location'')) @
     '' (Business ID: '' @ py_str B (dict_get record ''location_id'' (PStr ''N/A'')) @
     '', DB ID: '' @ py_str B (dict_get record ''id'' (PStr ''N/A'')) @ ''). '' @
     ''Coordinates: ('' @
       py_str B (fst (parse_coordinates B (dict_get record ''coordinates'' PNone))) @ '', '' @
       py_str B (snd (parse_coordinates B (dict_get record ''coordinates'' PNone))) @ ''). '' @
     ''Last interaction: '' @ py_str B (dict_get record ''last_interaction'' (PStr ''N/A'')) @
     ''. Total interactions: '' @ py_str B (dict_get record ''total_interactions'' (PInt 0)) @
     ''. '' @
     ''Blockchain address: '' @ py_str B (dict_get record ''blockchain_address'' (PStr ''N/A'')) @
     ''.''"
  by (simp add: identity_chunk_def Let_def not_available_def case_prod_beta)

lemma coordinates_of_dict:
  "parse_coordinates B (PDict d) = (dict_get d ''x'' (PStr ''N/A''), dict_get d ''y'' (PStr ''N/A''))"
  by (simp add: parse_coordinates_def not_available_def)

lemma coordinates_of_text:
  "split_on (CHR '','') (strip_chars ''()'' s) = [lon_str, lat_str] \<Longrightarrow>
   parse_float B lon_str = Some lon \<Longrightarrow> parse_float B lat_str = Some lat \<Longrightarrow>
   parse_coordinates B (PStr s) = (PFloat lon, PFloat lat)"
  by (simp add: parse_coordinates_def)

lemma coordinates_malformed:
  "length (split_on (CHR '','') (strip_chars ''()'' s)) \<noteq> 2 \<Longrightarrow>
   parse_coordinates B (PStr s) = (PStr ''N/A'', PStr ''N/A'')"
  by (auto simp: parse_coordinates_def not_available_def split: list.splits)

text \<open>
  Claim C8. For a record whose sections have the types of the schema,
  \<^verbatim>\<open>process_location_memory_to_chunks\<close> returns a list of chunks. Whenever it returns,
  the first chunk is the mandatory one: the location name, the business id and the
  database id, the coordinates, the last interaction, the number of interactions and
  the blockchain address, each with its default when the record lacks it. After it
  comes exactly one chunk for each optional section that exists and is non-empty on
  the record, and for no other, in the order personality traits, voice
  characteristics, cultural influences, voice profile. So the number of chunks is one
  more than the number of such sections, and a record with none of them gives the
  mandatory chunk alone. The coordinates are the entries \<^verbatim>\<open>x\<close> and \<^verbatim>\<open>y\<close> of a
  dictionary, or the two numbers of a text \<^verbatim>\<open>(lon,lat)\<close>; a text that does not split
  into two parts is rendered as \<^verbatim>\<open>N/A\<close> and the chunks are still produced.
\<close>

theorem chunks_by_section:
  "(schema_typed record \<longrightarrow> (\<exists>chunks. process_location_memory_to_chunks B record = Inr chunks)) \<and>
   (\<forall>chunks. process_location_memory_to_chunks B record = Inr chunks \<longrightarrow>
      (let mandatory =
         ''Location: '' @ py_str B (dict_get record ''location_name'' (PStr ''Unknown Location'')) @
         '' (Business ID: '' @ py_str B (dict_get record ''location_id'' (PStr ''N/A'')) @
         '', DB ID: '' @ py_str B (dict_get record ''id'' (PStr ''N/A'')) @ ''). '' @
         ''Coordinates: ('' @
           py_str B (fst (parse_coordinates B (dict_get record ''coordinates'' PNone))) @ '', '' @
           py_str B (snd (parse_coordinates B (dict_get record ''coordinates'' PNone))) @ ''). '' @
         ''Last interaction: '' @ py_str B (dict_get record ''last_interaction'' (PStr ''N/A'')) @
         ''. Total interactions: '' @ py_str B (dict_get record ''total_interactions'' (PInt 0)) @
         ''. '' @
         ''Blockchain address: '' @
           py_str B (dict_get record ''blockchain_address'' (PStr ''N/A'')) @ ''.''
       in chunks \<noteq> [] \<and> hd chunks = mandatory \<and>
          map chunk_section_of chunks =
            map Some (Identity # filter (section_present record) optional_sections) \<and>
          length chunks = 1 + length (filter (section_present record) optional_sections) \<and>
          (filter (section_present record) optional_sections = [] \<longrightarrow> chunks = [mandatory]))) \<and>
   parse_coordinates B (PDict d) =
     (dict_get d ''x'' (PStr ''N/A''), dict_get d ''y'' (PStr ''N/A'')) \<and>
   (split_on (CHR '','') (strip_chars ''()'' s) = [lon_str, lat_str] \<and>
    parse_float B lon_str = Some lon \<and> parse_float B lat_str = Some lat \<longrightarrow>
      parse_coordinates B (PStr s) = (PFloat lon, PFloat lat)) \<and>
   (length (split_on (CHR '','') (strip_chars ''()'' s)) \<noteq> 2 \<longrightarrow>
      parse_coordinates B (PStr s) = (PStr ''N/A'', PStr ''N/A''))"
proof (intro conjI impI allI)
  assume "schema_typed record"
  then show "\<exists>chunks. process_location_memory_to_chunks B record = Inr chunks"
    by (rule chunks_total)
next
  fix chunks
  assume run: "process_location_memory_to_chunks B record = Inr chunks"
  from chunks_first [OF run] obtain rest where rest: "chunks = identity_chunk B record # rest"
    by blast
  have sections: "map chunk_section_of chunks =
      map Some (Identity # filter (section_present record) optional_sections)"
    using run by (rule chunk_sections)
  from sections have "length (map chunk_section_of chunks) =
      length (map Some (Identity # filter (section_present record) optional_sections))"
    by (rule arg_cong)
  then have len: "length chunks = 1 + length (filter (section_present record) optional_sections)"
    by simp
  have alone: "filter (section_present record) optional_sections = [] \<longrightarrow>
      chunks = [identity_chunk B record]"
    using len by (auto simp: rest)
  from rest sections len alone
  have "chunks \<noteq> [] \<and> hd chunks = identity_chunk B record \<and>
      map chunk_section_of chunks =
        map Some (Identity # filter (section_present record) optional_sections) \<and>
      length chunks = 1 + length (filter (section_present record) optional_sections) \<and>
      (filter (section_present record) optional_sections = [] \<longrightarrow>
         chunks = [identity_chunk B record])"
    by simp
  then show "let mandatory =
         ''Location: '' @ py_str B (dict_get record ''location_name'' (PStr ''Unknown Location'')) @
         '' (Business ID: '' @ py_str B (dict_get record ''location_id'' (PStr ''N/A'')) @
         '', DB ID: '' @ py_str B (dict_get record ''id'' (PStr ''N/A'')) @ ''). '' @
         ''Coordinates: ('' @
           py_str B (fst (parse_coordinates B (dict_get record ''coordinates'' PNone))) @ '', '' @
           py_str B (snd (parse_coordinates B (dict_get record ''coordinates'' PNone))) @ ''). '' @
         ''Last interaction: '' @ py_str B (dict_get record ''last_interaction'' (PStr ''N/A'')) @
         ''. Total interactions: '' @ py_str B (dict_get record ''total_interactions'' (PInt 0)) @
         ''. '' @
         ''Blockchain address: '' @
           py_str B (dict_get record ''blockchain_address'' (PStr ''N/A'')) @ ''.''
       in chunks \<noteq> [] \<and> hd chunks = mandatory \<and>
          map chunk_section_of chunks =
            map Some (Identity # filter (section_present record) optional_sections) \<and>
          length chunks = 1 + length (filter (section_present record) optional_sections) \<and>
          (filter (section_present record) optional_sections = [] \<longrightarrow> chunks = [mandatory])"
    unfolding Let_def identity_chunk_text [symmetric] .
next
  show "parse_coordinates B (PDict d) =
     (dict_get d ''x'' (PStr ''N/A''), dict_get d ''y'' (PStr ''N/A''))"
    by (rule coordinates_of_dict)
next
  assume parts: "split_on (CHR '','') (strip_chars ''()'' s) = [lon_str, lat_str] \<and>
    parse_float B lon_str = Some lon \<and> parse_float B lat_str = Some lat"
  show "parse_coordinates B (PStr s) = (PFloat lon, PFloat lat)"
    by (rule coordinates_of_text [OF parts [THEN conjunct1]
          parts [THEN conjunct2, THEN conjunct1] parts [THEN conjunct2, THEN conjunct2]])
next
  assume "length (split_on (CHR '','') (strip_chars ''()'' s)) \<noteq> 2"
  then show "parse_coordinates B (PStr s) = (PStr ''N/A'', PStr ''N/A'')"
    by (rule coordinates_malformed)
qed

text \<open>
  The theorem at a fully populated record (five chunks, in schema order), at a
  record with the identity fields only (one chunk, written out) and at two coordinate
  texts.
\<close>

theorem chunks_by_section_witness:
  "(\<exists>chunks. process_location_memory_to_chunks demo_builtins full_record = Inr chunks \<and>
      map chunk_section_of chunks =
        [Some Identity, Some Traits, Some VoiceCharacteristics, Some CulturalInfluence,
         Some VoiceProfile] \<and>
      length chunks = 5) \<and>
   process_location_memory_to_chunks demo_builtins minimal_record =
     Inr [''Location: Lisbon (Business ID: N/A, DB ID: 7). Coordinates: (-9.0, 38.0). '' @
          ''Last interaction: N/A. Total interactions: 0. Blockchain address: N/A.''] \<and>
   parse_coordinates demo_builtins (PStr ''(1,2,3)'') = (PStr ''N/A'', PStr ''N/A'')"
proof -
  have typed_full: "schema_typed full_record"
    by (simp add: schema_typed_def full_record_def personality_section_def section_of_def
        dict_get_def traits_ok_def languages_ok_def fits_float_def)
  have present_full: "filter (section_present full_record) optional_sections = optional_sections"
    by (simp add: optional_sections_def full_record_def personality_section_def section_of_def
        dict_get_def)
  have typed_min: "schema_typed minimal_record"
    by (simp add: schema_typed_def minimal_record_def personality_section_def section_of_def
        dict_get_def)
  have present_min: "filter (section_present minimal_record) optional_sections = []"
    by (simp add: optional_sections_def minimal_record_def personality_section_def section_of_def
        dict_get_def)
  note at_full =
    chunks_by_section [of full_record demo_builtins "[]" "''(1,2,3)''" "[]" "[]" 0 0]
  note at_minimal =
    chunks_by_section [of minimal_record demo_builtins "[]" "[]" "[]" "[]" 0 0]
  from at_full [THEN conjunct1] typed_full
  obtain cs where run_full: "process_location_memory_to_chunks demo_builtins full_record = Inr cs"
    by blast
  from at_full [THEN conjunct2, THEN conjunct1, THEN spec, of cs] run_full present_full
  have sections_full: "map chunk_section_of cs =
        [Some Identity, Some Traits, Some VoiceCharacteristics, Some CulturalInfluence,
         Some VoiceProfile] \<and> length cs = 5"
    by (simp add: optional_sections_def Let_def)
  have full: "\<exists>chunks. process_location_memory_to_chunks demo_builtins full_record = Inr chunks \<and>
      map chunk_section_of chunks =
        [Some Identity, Some Traits, Some VoiceCharacteristics, Some CulturalInfluence,
         Some VoiceProfile] \<and>
      length chunks = 5"
    by (rule exI [of _ cs]) (simp add: run_full sections_full)
  have text_min:
    "''Location: '' @ py_str demo_builtins (dict_get minimal_record ''location_name'' (PStr ''Unknown Location'')) @
     '' (Business ID: '' @ py_str demo_builtins (dict_get minimal_record ''location_id'' (PStr ''N/A'')) @
     '', DB ID: '' @ py_str demo_builtins (dict_get minimal_record ''id'' (PStr ''N/A'')) @ ''). '' @
     ''Coordinates: ('' @
       py_str demo_builtins (fst (parse_coordinates demo_builtins (dict_get minimal_record ''coordinates'' PNone))) @ '', '' @
       py_str demo_builtins (snd (parse_coordinates demo_builtins (dict_get minimal_record ''coordinates'' PNone))) @ ''). '' @
     ''Last interaction: '' @ py_str demo_builtins (dict_get minimal_record ''last_interaction'' (PStr ''N/A'')) @
     ''. Total interactions: '' @ py_str demo_builtins (dict_get minimal_record ''total_interactions'' (PInt 0)) @
     ''. '' @
     ''Blockchain address: '' @
       py_str demo_builtins (dict_get minimal_record ''blockchain_address'' (PStr ''N/A'')) @ ''.'' =
     ''Location: Lisbon (Business ID: N/A, DB ID: 7). Coordinates: (-9.0, 38.0). '' @
     ''Last interaction: N/A. Total interactions: 0. Blockchain address: N/A.''"
    by (simp add: minimal_record_def dict_get_def py_str_def demo_builtins_def
        parse_coordinates_def not_available_def)
  from at_minimal [THEN conjunct1] typed_min
  obtain ms where run_min: "process_location_memory_to_chunks demo_builtins minimal_record = Inr ms"
    by blast
  from at_minimal [THEN conjunct2, THEN conjunct1, THEN spec, of ms] run_min present_min
  have "ms = [''Location: Lisbon (Business ID: N/A, DB ID: 7). Coordinates: (-9.0, 38.0). '' @
          ''Last interaction: N/A. Total interactions: 0. Blockchain address: N/A.'']"
    unfolding Let_def text_min by blast
  with run_min
  have minimal: "process_location_memory_to_chunks demo_builtins minimal_record =
     Inr [''Location: Lisbon (Business ID: N/A, DB ID: 7). Coordinates: (-9.0, 38.0). '' @
          ''Last interaction: N/A. Total interactions: 0. Blockchain address: N/A.'']"
    by simp
  have "length (split_on (CHR '','') (strip_chars ''()'' ''(1,2,3)'')) \<noteq> 2"
    by (simp add: strip_chars_def)
  with at_full [THEN conjunct2, THEN conjunct2, THEN conjunct2, THEN conjunct2]
  have malformed: "parse_coordinates demo_builtins (PStr ''(1,2,3)'') = (PStr ''N/A'', PStr ''N/A'')"
    by blast
  from full minimal malformed show ?thesis by (intro conjI)
qed

section \<open>Preprocessing and the rebuilt feature row\<close>

lemma sort_levels: "sort (remdups (present [Some ''5G'', Some ''4G'', Some ''4G''])) = [''4G'', ''5G'']"
  by code_simp

lemma mode_demo: "column_mode [Some ''5G'', Some ''4G'', None] = [''4G'', ''5G'']"
  by code_simp

lemma mean_demo: "column_mean [Some 80, None, Some 60] = Some 70"
  by (simp add: column_mean_def present_def List.map_filter_def)

lemma network_preprocessed:
  "preprocess_data [''network'' \<mapsto> network_config] network_table ''network'' =
   Inr ([(''location_name'', ObjCol [Some ''Tokyo'', Some ''Paris'', Some ''Tokyo'']),
         (''signal_strength'', NumCol [Some 80, Some 70, Some 60]),
         (''reliability_score'', NumCol [Some (9/10), Some (1/2), Some (7/10)]),
         (''network_type_4G'', NumCol [Some 0, Some 1, Some 1]),
         (''network_type_5G'', NumCol [Some 1, Some 0, Some 0])],
        [''network_type_4G'', ''network_type_5G'', ''signal_strength''])"
  by (simp add: preprocess_data_def network_config_def network_table_def set_column_def
      fill_missing_def fillna_def mode_demo mean_demo get_dummies_def sort_levels dummy_column_def
      expanded_features_def columns_def)

lemma row_demo:
  "input_row [''network_type_4G'', ''network_type_5G'', ''signal_strength'']
     [(''network_type'', PStr ''4G''), (''signal_strength'', PInt 80)] = [PInt 0, PInt 0, PInt 80]"
  by (simp add: input_row_def reconstruct_feature_def base_feature_name_def)

lemma split_on_not_Nil: "split_on c s \<noteq> []"
  by (induction s) (auto split: list.splits)

lemma hd_split_on: "hd (split_on c s) = takeWhile (\<lambda>x. x \<noteq> c) s"
  by (induction s) (auto simp: split_on_not_Nil split: list.splits)

lemma base_of_name:
  assumes "CHR ''_'' \<notin> set base"
  shows "base_feature_name (base @ ''_'' @ rest) = Some base"
proof -
  have "takeWhile (\<lambda>x. x \<noteq> CHR ''_'') (base @ ''_'' @ rest) = base"
    using assms by (induction base) auto
  then show ?thesis by (simp add: base_feature_name_def hd_split_on)
qed

lemma replace_all_absent:
  "\<not> occurs old s \<Longrightarrow> old \<noteq> [] \<Longrightarrow> replace_all old new s = s"
proof (induction s)
  case Nil
  then show ?case by (simp add: replace_all.simps)
next
  case (Cons c cs)
  then show ?case by (subst replace_all.simps) simp
qed

lemma replace_all_at_start:
  "old \<noteq> [] \<Longrightarrow> replace_all old new (old @ s) = new @ replace_all old new s"
  by (subst replace_all.simps) simp

lemma strip_base:
  assumes "\<not> occurs (base @ ''_'') rest"
  shows "replace_all (base @ ''_'') [] (base @ ''_'' @ rest) = rest"
proof -
  have "replace_all (base @ ''_'') [] ((base @ ''_'') @ rest) = [] @ replace_all (base @ ''_'') [] rest"
    by (rule replace_all_at_start) simp
  also have "\<dots> = rest"
    using assms by (simp add: replace_all_absent)
  finally show ?thesis by simp
qed

text \<open>
  Claim C10, amended. A stored feature name \<open>base_rest\<close>, where \<open>base\<close> is the part
  before the first underscore: when \<open>base\<close> is not empty and is a key of the input,
  and \<^verbatim>\<open><base>_\<close> does not occur again in \<open>rest\<close>, the cell is 1 if the input value at
  \<open>base\<close> is the string \<open>rest\<close> and 0 otherwise, whatever the input holds at the full
  name. When \<open>base\<close> is empty the one-hot rule is not used: the cell is the input's
  value at the full name, or 0 when the input has none.
\<close>

theorem first_underscore_precedence:
  "(CHR ''_'' \<notin> set base \<and> base \<noteq> [] \<and> map_of input_data base = Some v \<and>
    \<not> occurs (base @ ''_'') rest \<longrightarrow>
      reconstruct_feature input_data (base @ ''_'' @ rest) =
        (if v = PStr rest then PInt 1 else PInt 0)) \<and>
   reconstruct_feature input_data (''_'' @ rest) =
     (case map_of input_data (''_'' @ rest) of Some direct \<Rightarrow> direct | None \<Rightarrow> PInt 0)"
proof (intro conjI impI)
  assume a: "CHR ''_'' \<notin> set base \<and> base \<noteq> [] \<and> map_of input_data base = Some v \<and>
    \<not> occurs (base @ ''_'') rest"
  then have b: "base_feature_name (base @ ''_'' @ rest) = Some base"
    by (intro base_of_name) simp
  from a have r: "replace_all (base @ ''_'') [] (base @ ''_'' @ rest) = rest"
    by (intro strip_base) simp
  from a show "reconstruct_feature input_data (base @ ''_'' @ rest) =
      (if v = PStr rest then PInt 1 else PInt 0)"
    unfolding reconstruct_feature_def b Let_def option.sel r by simp
next
  have "base_feature_name ([] @ ''_'' @ rest) = Some []"
    by (rule base_of_name) simp
  then have "base_feature_name (''_'' @ rest) = Some []"
    by simp
  then show "reconstruct_feature input_data (''_'' @ rest) =
     (case map_of input_data (''_'' @ rest) of Some direct \<Rightarrow> direct | None \<Rightarrow> PInt 0)"
    unfolding reconstruct_feature_def Let_def by (simp split: option.splits)
qed

text \<open>
  The theorem at the feature \<^verbatim>\<open>signal_strength\<close> and an input with the keys
  \<^verbatim>\<open>signal\<close> and \<^verbatim>\<open>signal_strength\<close>: the value 55 given for the full name is ignored.
\<close>

theorem first_underscore_precedence_witness:
  "reconstruct_feature [(''signal'', PStr ''strength''), (''signal_strength'', PInt 55)]
     ''signal_strength'' = PInt 1 \<and>
   reconstruct_feature [(''signal'', PStr ''weak''), (''signal_strength'', PInt 55)]
     ''signal_strength'' = PInt 0"
proof -
  have no: "\<not> occurs (''signal'' @ ''_'') ''strength''"
    by simp
  from first_underscore_precedence
    [of "''signal''" "[(''signal'', PStr ''strength''), (''signal_strength'', PInt 55)]"
      "PStr ''strength''" "''strength''"] no
  have one: "reconstruct_feature [(''signal'', PStr ''strength''), (''signal_strength'', PInt 55)]
     ''signal_strength'' = PInt 1"
    by simp
  from first_underscore_precedence
    [of "''signal''" "[(''signal'', PStr ''weak''), (''signal_strength'', PInt 55)]"
      "PStr ''weak''" "''strength''"] no
  have zero: "reconstruct_feature [(''signal'', PStr ''weak''), (''signal_strength'', PInt 55)]
     ''signal_strength'' = PInt 0"
    by simp
  from one zero show ?thesis by (rule conjI)
qed

text \<open>
  Claim C10 as stated fails for the feature \<^verbatim>\<open>_x\<close>: the part before the first
  underscore is the empty string, the input has the key \<^verbatim>\<open>""\<close> with the value
  \<^verbatim>\<open>"x"\<close>, the remainder of the name, yet the cell is the value 7 supplied for the full
  name and not the one-hot 1.
\<close>

theorem empty_base_counterexample:
  "CHR ''_'' \<in> set ''_x'' \<and> hd (split_on (CHR ''_'') ''_x'') = [] \<and>
   map_of [([], PStr ''x''), (''_x'', PInt 7)] [] = Some (PStr ''x'') \<and>
   drop (length ([] :: string) + 1) ''_x'' = ''x'' \<and>
   reconstruct_feature [([], PStr ''x''), (''_x'', PInt 7)] ''_x'' = PInt 7"
  by (simp add: reconstruct_feature_def base_feature_name_def)

text \<open>
  Claim C1 fails on the code for a categorical feature whose name has an underscore.
  Preprocessing expands \<^verbatim>\<open>network_type\<close>, observed with the values 4G and 5G, into the
  columns \<^verbatim>\<open>network_type_4G\<close> and \<^verbatim>\<open>network_type_5G\<close>. The predictor looks for the
  key \<^verbatim>\<open>network\<close>, which the input does not have, then for the column name itself,
  and falls back to 0: an input with \<^verbatim>\<open>network_type = 4G\<close> gives the cells 0, 0
  where the round trip asks for 1, 0, the same cells as for the unseen value 3G.
\<close>

theorem one_hot_lost_for_underscore_name:
  "(\<exists>df. preprocess_data [''network'' \<mapsto> network_config] network_table ''network'' =
      Inr (df, [''network_type_4G'', ''network_type_5G'', ''signal_strength''])) \<and>
   input_row [''network_type_4G'', ''network_type_5G'', ''signal_strength'']
     [(''network_type'', PStr ''4G''), (''signal_strength'', PInt 80)] = [PInt 0, PInt 0, PInt 80] \<and>
   input_row [''network_type_4G'', ''network_type_5G'', ''signal_strength'']
     [(''network_type'', PStr ''3G''), (''signal_strength'', PInt 80)] = [PInt 0, PInt 0, PInt 80]"
  by (simp add: network_preprocessed input_row_def reconstruct_feature_def base_feature_name_def)

lemma columns_set_column: "columns (set_column df col c) = columns df"
  by (induction df) (auto simp: columns_def set_column_def)

lemma columns_fill_columns: "columns (fill_columns cols df) = columns df"
  by (induction cols arbitrary: df) (auto simp: columns_set_column split: option.splits)

lemma column_length_fill: "column_length (fill_missing c) = column_length c"
  by (cases c) (simp_all add: fill_missing_def fillna_def)

lemma rows_set_column:
  "rows_are k df \<Longrightarrow> column_length c = k \<Longrightarrow> rows_are k (set_column df col c)"
  by (induction df) (auto simp: rows_are_def set_column_def)

lemma rows_lookup: "rows_are k df \<Longrightarrow> map_of df col = Some c \<Longrightarrow> column_length c = k"
  by (auto simp: rows_are_def list_all_iff dest!: map_of_SomeD)

lemma rows_fill_columns: "rows_are k df \<Longrightarrow> rows_are k (fill_columns cols df)"
proof (induction cols arbitrary: df)
  case Nil
  then show ?case by simp
next
  case (Cons col cols)
  show ?case
  proof (cases "map_of df col")
    case None
    with Cons show ?thesis by simp
  next
    case (Some c)
    with Cons.prems have "column_length (fill_missing c) = k"
      by (simp add: column_length_fill rows_lookup)
    with Cons.prems have "rows_are k (set_column df col (fill_missing c))"
      by (simp add: rows_set_column)
    with Cons.IH Some show ?thesis by simp
  qed
qed

lemma rows_get_dummies:
  "rows_are k df \<Longrightarrow> length vs = k \<Longrightarrow> rows_are k (get_dummies df col vs)"
  by (auto simp: rows_are_def get_dummies_def dummy_column_def list_all_iff)

lemma rows_expand:
  "rows_are k df \<Longrightarrow> rows_are k (fst (expand_categorical cols (df, cats)))"
proof (induction cols arbitrary: df cats)
  case Nil
  then show ?case by simp
next
  case (Cons col cols)
  show ?case
  proof (cases "map_of df col")
    case None
    with Cons show ?thesis by simp
  next
    case (Some c)
    show ?thesis
    proof (cases c)
      case (NumCol vs)
      with Some Cons show ?thesis by simp
    next
      case (ObjCol vs)
      with Some Cons.prems have "length vs = k"
        using rows_lookup [of k df col c] by simp
      with Cons.prems have "rows_are k (get_dummies df col vs)"
        by (rule rows_get_dummies)
      with Cons.IH Some ObjCol show ?thesis by simp
    qed
  qed
qed

lemma kept_get_dummies:
  "c \<in> set (columns df) \<Longrightarrow> c \<noteq> col \<Longrightarrow> c \<in> set (columns (get_dummies df col vs))"
  by (auto simp: columns_def get_dummies_def)

lemma kept_expand:
  "c \<in> set (columns df) \<Longrightarrow> c \<notin> set cols \<Longrightarrow>
   c \<in> set (columns (fst (expand_categorical cols (df, cats))))"
proof (induction cols arbitrary: df cats)
  case Nil
  then show ?case by simp
next
  case (Cons col cols)
  from Cons.prems have ne: "c \<noteq> col" and rest: "c \<notin> set cols" by auto
  show ?case
  proof (cases "map_of df col")
    case None
    with Cons.IH [OF Cons.prems(1) rest] show ?thesis by simp
  next
    case (Some cl)
    show ?thesis
    proof (cases cl)
      case (NumCol vs)
      with Some Cons.IH [OF Cons.prems(1) rest] show ?thesis by simp
    next
      case (ObjCol vs)
      from Cons.prems(1) ne have "c \<in> set (columns (get_dummies df col vs))"
        by (rule kept_get_dummies)
      from Cons.IH [OF this rest] Some ObjCol show ?thesis by simp
    qed
  qed
qed

lemma expanded_features_subset: "set (expanded_features feats cats df) \<subseteq> set (columns df)"
  by (auto simp: expanded_features_def split: if_splits)

text \<open>
  Claim C9, amended. For a configured dataset type \<^verbatim>\<open>preprocess_data\<close> returns a
  cleaned table and the expanded features such that every expanded feature is a
  column of the cleaned table, every column of the raw table that is not a configured
  feature is still a column of the cleaned table (the target, when the raw table has
  it, and any unrelated column too), and every column has as many rows as before: no
  row is dropped.
\<close>

theorem cleaned_table_shape:
  assumes "registry dataset_type = Some dataset_info"
  shows "\<exists>cleaned new_features.
     preprocess_data registry df dataset_type = Inr (cleaned, new_features) \<and>
     set new_features \<subseteq> set (columns cleaned) \<and>
     (\<forall>c. c \<in> set (columns df) \<and> c \<notin> set (features dataset_info) \<longrightarrow> c \<in> set (columns cleaned)) \<and>
     (\<forall>k. rows_are k df \<longrightarrow> rows_are k cleaned)"
proof -
  let ?df1 = "fill_columns (features dataset_info @ [target dataset_info]) df"
  obtain df2 cats where e: "expand_categorical (features dataset_info) (?df1, []) = (df2, cats)"
    by (cases "expand_categorical (features dataset_info) (?df1, [])")
  then have df2: "df2 = fst (expand_categorical (features dataset_info) (?df1, []))"
    by simp
  have run: "preprocess_data registry df dataset_type =
      Inr (df2, expanded_features (features dataset_info) cats df2)"
    by (simp add: preprocess_data_def assms e)
  have kept: "c \<in> set (columns df2)"
    if "c \<in> set (columns df) \<and> c \<notin> set (features dataset_info)" for c
    unfolding df2 using that by (intro kept_expand) (simp_all add: columns_fill_columns)
  have rows: "rows_are k df2" if "rows_are k df" for k
    unfolding df2 using that by (intro rows_expand rows_fill_columns)
  from run kept rows show ?thesis
    by (auto simp: expanded_features_subset)
qed

text \<open>
  The theorem at the network table: three rows before and after, the target kept.
\<close>

theorem cleaned_table_shape_witness:
  "\<exists>cleaned new_features.
     preprocess_data [''network'' \<mapsto> network_config] network_table ''network'' =
       Inr (cleaned, new_features) \<and>
     set new_features \<subseteq> set (columns cleaned) \<and>
     ''reliability_score'' \<in> set (columns cleaned) \<and>
     rows_are 3 cleaned"
proof -
  have cfg: "[''network'' \<mapsto> network_config] ''network'' = Some network_config"
    by simp
  have tgt: "''reliability_score'' \<in> set (columns network_table) \<and>
      ''reliability_score'' \<notin> set (features network_config)"
    by (simp add: columns_def network_table_def network_config_def)
  have rows: "rows_are 3 network_table"
    by (simp add: rows_are_def network_table_def)
  from cleaned_table_shape
    [of "[''network'' \<mapsto> network_config]" "''network''" network_config network_table]
    cfg
  obtain cleaned new_features where
    run: "preprocess_data [''network'' \<mapsto> network_config] network_table ''network'' =
       Inr (cleaned, new_features)" and
    sub: "set new_features \<subseteq> set (columns cleaned)" and
    kept: "\<forall>c. c \<in> set (columns network_table) \<and> c \<notin> set (features network_config) \<longrightarrow>
       c \<in> set (columns cleaned)" and
    same: "\<forall>k. rows_are k network_table \<longrightarrow> rows_are k cleaned"
    by blast
  from kept [THEN spec, of "''reliability_score''"] tgt
  have t: "''reliability_score'' \<in> set (columns cleaned)"
    by (rule mp)
  from same [THEN spec, of 3] rows have r: "rows_are 3 cleaned"
    by (rule mp)
  from run sub t r show ?thesis
    by (intro exI conjI)
qed

text \<open>
  Claim C9 as stated fails: the cleaned network table still has the column
  \<^verbatim>\<open>location_name\<close>, which is neither the target nor an expanded feature.
\<close>

theorem cleaned_table_keeps_other_columns:
  "\<exists>cleaned new_features.
     preprocess_data [''network'' \<mapsto> network_config] network_table ''network'' =
       Inr (cleaned, new_features) \<and>
     ''location_name'' \<in> set (columns cleaned) \<and>
     ''location_name'' \<notin> set (target network_config # new_features)"
proof (intro exI conjI)
  show "preprocess_data [''network'' \<mapsto> network_config] network_table ''network'' =
   Inr ([(''location_name'', ObjCol [Some ''Tokyo'', Some ''Paris'', Some ''Tokyo'']),
         (''signal_strength'', NumCol [Some 80, Some 70, Some 60]),
         (''reliability_score'', NumCol [Some (9/10), Some (1/2), Some (7/10)]),
         (''network_type_4G'', NumCol [Some 0, Some 1, Some 1]),
         (''network_type_5G'', NumCol [Some 1, Some 0, Some 0])],
        [''network_type_4G'', ''network_type_5G'', ''signal_strength''])"
    by (rule network_preprocessed)
qed (simp_all add: columns_def network_config_def)

section \<open>Training, loading and prediction\<close>

lemma train_model_failure_keeps_registry:
  "(\<forall>i. fst (train_model sk self df dataset_type new_features) \<noteq> Inr (ModelInfo i)) \<Longrightarrow>
   snd (train_model sk self df dataset_type new_features) = self"
  by (auto simp: train_model_def split: option.splits sum.splits if_splits)

text \<open>
  Claim C4. For a configured dataset type, \<^verbatim>\<open>train_model\<close> returns the error
  \<^verbatim>\<open>No features available for training.\<close> when the expanded feature list is empty;
  it returns the error \<^verbatim>\<open>Target column '...' not found.\<close> when the list is not empty
  and the table has no target column (the first check comes first, so an empty
  feature list is reported also when the target is missing too). In both cases the
  result is an error and the model registry is what it was. More: whenever
  \<^verbatim>\<open>train_model\<close> does not return a \<^verbatim>\<open>model_info\<close>, the enhancer is unchanged.
\<close>

theorem train_model_degenerate_input:
  "(datasets self dataset_type = Some dataset_info \<longrightarrow>
      (new_features = [] \<longrightarrow>
         train_model sk self df dataset_type new_features =
           (Inr (TrainError no_features_message), self)) \<and>
      (new_features \<noteq> [] \<and> target dataset_info \<notin> set (columns df) \<longrightarrow>
         train_model sk self df dataset_type new_features =
           (Inr (TrainError (missing_target_message (target dataset_info))), self)) \<and>
      (new_features = [] \<or> target dataset_info \<notin> set (columns df) \<longrightarrow>
         (\<exists>message. fst (train_model sk self df dataset_type new_features) =
            Inr (TrainError message)) \<and>
         models (snd (train_model sk self df dataset_type new_features)) = models self)) \<and>
   ((\<forall>i. fst (train_model sk self df dataset_type new_features) \<noteq> Inr (ModelInfo i)) \<longrightarrow>
      snd (train_model sk self df dataset_type new_features) = self)"
proof (intro conjI impI)
  assume "\<forall>i. fst (train_model sk self df dataset_type new_features) \<noteq> Inr (ModelInfo i)"
  then show "snd (train_model sk self df dataset_type new_features) = self"
    by (rule train_model_failure_keeps_registry)
qed (auto simp: train_model_def)

text \<open>
  The theorem at the network configuration: an empty feature list, and a table
  without the column \<^verbatim>\<open>reliability_score\<close>.
\<close>

theorem train_model_degenerate_input_witness:
  "train_model demo_sklearn demo_enhancer small_network_table ''network'' [] =
     (Inr (TrainError no_features_message), demo_enhancer) \<and>
   train_model demo_sklearn demo_enhancer small_social_table ''network'' [''total_posts''] =
     (Inr (TrainError (missing_target_message ''reliability_score'')), demo_enhancer)"
proof -
  have cfg: "datasets demo_enhancer ''network'' = Some network_config"
    by (simp add: demo_enhancer_def)
  have absent: "target network_config \<notin> set (columns small_social_table)"
    by (simp add: network_config_def small_social_table_def columns_def)
  have tgt: "target network_config = ''reliability_score''"
    by (simp add: network_config_def)
  from train_model_degenerate_input
    [of demo_enhancer "''network''" network_config "[]" demo_sklearn small_network_table] cfg
  have a: "train_model demo_sklearn demo_enhancer small_network_table ''network'' [] =
     (Inr (TrainError no_features_message), demo_enhancer)"
    by blast
  from train_model_degenerate_input
    [of demo_enhancer "''network''" network_config "[''total_posts'']" demo_sklearn
      small_social_table] cfg absent
  have "train_model demo_sklearn demo_enhancer small_social_table ''network'' [''total_posts''] =
     (Inr (TrainError (missing_target_message (target network_config))), demo_enhancer)"
    by blast
  with a tgt show ?thesis by simp
qed

lemma and_then_Inr:
  "and_then r f = Inr y \<Longrightarrow> \<exists>x. r = Inr x \<and> f x = Inr y"
  by (cases r) (simp_all add: and_then_def)

lemma train_regressor_result:
  assumes "train_regressor sk nf s Xtr Xte ytr yte = Inr (m, i)"
  shows "\<exists>p w mse r2. m = GradientBoostingRegressor p w \<and>
     mean_squared_error sk yte (projr (p Xte)) = Inr mse \<and>
     r2_score sk yte (projr (p Xte)) = Inr r2 \<and>
     i = \<lparr>entries = [(''type'', PStr ''regression''),
                     (''metrics'', PDict [(''mse'', PFloat mse), (''r2'', PFloat r2)])] @
                    feature_importance_entry nf m,
           scaler = s\<rparr>"
  using assms unfolding train_regressor_def
  by (auto dest!: and_then_Inr split: prod.splits)

lemma train_classifier_result:
  assumes "train_classifier sk nf s Xtr Xte ytr yte = Inr (m, i)"
  shows "\<exists>p q w accuracy f1. m = RandomForestClassifier p q w \<and>
     accuracy_score sk yte (projr (p Xte)) = Inr accuracy \<and>
     f1_score sk yte (projr (p Xte)) ''weighted'' 0 = Inr f1 \<and>
     i = \<lparr>entries = [(''type'', PStr ''classification''),
                     (''metrics'', PDict [(''accuracy'', PFloat accuracy), (''f1'', PFloat f1)])] @
                    feature_importance_entry nf m,
           scaler = s\<rparr>"
  using assms unfolding train_classifier_def
  by (auto dest!: and_then_Inr split: prod.splits)

lemma fit_and_evaluate_branch:
  assumes "fit_and_evaluate sk df tgt nf = Inr (m, i)"
  shows "\<exists>s Xtr Xte ytr yte.
     (if tgt \<in> set bounded_score_targets
      then train_regressor sk nf s Xtr Xte ytr yte
      else train_classifier sk nf s Xtr Xte ytr yte) = Inr (m, i)"
  using assms unfolding fit_and_evaluate_def
  by (auto dest!: and_then_Inr split: prod.splits if_splits) blast+

lemma train_model_success:
  assumes "train_model sk self df dataset_type nf = (Inr (ModelInfo i), self')"
  shows "\<exists>dataset_info m. datasets self dataset_type = Some dataset_info \<and>
     fit_and_evaluate sk df (target dataset_info) nf = Inr (m, i) \<and>
     self' = self\<lparr>models := (models self)(dataset_type \<mapsto>
        \<lparr>model = m, model_features = nf, info = i\<rparr>)\<rparr>"
  using assms unfolding train_model_def
  by (auto split: option.splits if_splits sum.splits prod.splits)

text \<open>
  Claim C5. When \<^verbatim>\<open>train_model\<close> succeeds, the registered bundle holds the fitted
  model, the feature list and the returned \<^verbatim>\<open>model_info\<close>. If the target field is
  \<^verbatim>\<open>avg_sentiment\<close> or \<^verbatim>\<open>reliability_score\<close>, the model is a gradient boosting
  regressor, the type is recorded as \<^verbatim>\<open>regression\<close> and the metrics are \<^verbatim>\<open>mse\<close> and
  \<^verbatim>\<open>r2\<close>; for every other target it is a random forest classifier, the type is
  \<^verbatim>\<open>classification\<close> and the metrics are \<^verbatim>\<open>accuracy\<close> and \<^verbatim>\<open>f1\<close>, the latter
  computed by \<^verbatim>\<open>f1_score\<close> with average \<^verbatim>\<open>weighted\<close> and \<^verbatim>\<open>zero_division=0\<close>.
\<close>

theorem task_kind_by_target_name:
  "train_model sk self df dataset_type new_features = (Inr (ModelInfo model_info), self') \<longrightarrow>
   (\<exists>dataset_info m.
      datasets self dataset_type = Some dataset_info \<and>
      models self' dataset_type =
        Some \<lparr>model = m, model_features = new_features, info = model_info\<rparr> \<and>
      (if target dataset_info = ''avg_sentiment'' \<or> target dataset_info = ''reliability_score''
       then \<exists>p w mse r2.
              m = GradientBoostingRegressor p w \<and>
              map_of (entries model_info) ''type'' = Some (PStr ''regression'') \<and>
              map_of (entries model_info) ''metrics'' =
                Some (PDict [(''mse'', PFloat mse), (''r2'', PFloat r2)])
       else \<exists>p q w accuracy f1 y_test y_pred.
              m = RandomForestClassifier p q w \<and>
              map_of (entries model_info) ''type'' = Some (PStr ''classification'') \<and>
              map_of (entries model_info) ''metrics'' =
                Some (PDict [(''accuracy'', PFloat accuracy), (''f1'', PFloat f1)]) \<and>
              f1_score sk y_test y_pred ''weighted'' 0 = Inr f1))"
proof
  assume run: "train_model sk self df dataset_type new_features = (Inr (ModelInfo model_info), self')"
  from train_model_success [OF run] obtain dataset_info m where
    cfg: "datasets self dataset_type = Some dataset_info" and
    fit: "fit_and_evaluate sk df (target dataset_info) new_features = Inr (m, model_info)" and
    reg: "self' = self\<lparr>models := (models self)(dataset_type \<mapsto>
        \<lparr>model = m, model_features = new_features, info = model_info\<rparr>)\<rparr>"
    by blast
  from fit_and_evaluate_branch [OF fit] obtain s Xtr Xte ytr yte where
    branch: "(if target dataset_info \<in> set bounded_score_targets
      then train_regressor sk new_features s Xtr Xte ytr yte
      else train_classifier sk new_features s Xtr Xte ytr yte) = Inr (m, model_info)"
    by blast
  have kind: "if target dataset_info = ''avg_sentiment'' \<or> target dataset_info = ''reliability_score''
       then \<exists>p w mse r2.
              m = GradientBoostingRegressor p w \<and>
              map_of (entries model_info) ''type'' = Some (PStr ''regression'') \<and>
              map_of (entries model_info) ''metrics'' =
                Some (PDict [(''mse'', PFloat mse), (''r2'', PFloat r2)])
       else \<exists>p q w accuracy f1 y_test y_pred.
              m = RandomForestClassifier p q w \<and>
              map_of (entries model_info) ''type'' = Some (PStr ''classification'') \<and>
              map_of (entries model_info) ''metrics'' =
                Some (PDict [(''accuracy'', PFloat accuracy), (''f1'', PFloat f1)]) \<and>
              f1_score sk y_test y_pred ''weighted'' 0 = Inr f1"
  proof (cases "target dataset_info \<in> set bounded_score_targets")
    case True
    with branch have "train_regressor sk new_features s Xtr Xte ytr yte = Inr (m, model_info)"
      by simp
    from train_regressor_result [OF this] True show ?thesis
      by (auto simp: bounded_score_targets_def)
  next
    case False
    with branch have "train_classifier sk new_features s Xtr Xte ytr yte = Inr (m, model_info)"
      by simp
    from train_classifier_result [OF this] obtain p q w accuracy f1 where
      "m = RandomForestClassifier p q w" and
      "f1_score sk yte (projr (p Xte)) ''weighted'' 0 = Inr f1" and
      "model_info = \<lparr>entries = [(''type'', PStr ''classification''),
                     (''metrics'', PDict [(''accuracy'', PFloat accuracy), (''f1'', PFloat f1)])] @
                    feature_importance_entry new_features m,
           scaler = s\<rparr>"
      by blast
    then have "\<exists>p q w accuracy f1 y_test y_pred.
              m = RandomForestClassifier p q w \<and>
              map_of (entries model_info) ''type'' = Some (PStr ''classification'') \<and>
              map_of (entries model_info) ''metrics'' =
                Some (PDict [(''accuracy'', PFloat accuracy), (''f1'', PFloat f1)]) \<and>
              f1_score sk y_test y_pred ''weighted'' 0 = Inr f1"
      by (intro exI [of _ p] exI [of _ q] exI [of _ w] exI [of _ accuracy] exI [of _ f1]
          exI [of _ yte] exI [of _ "projr (p Xte)"]) simp
    with False show ?thesis
      by (simp add: bounded_score_targets_def)
  qed
  from cfg reg kind show "\<exists>dataset_info m.
      datasets self dataset_type = Some dataset_info \<and>
      models self' dataset_type =
        Some \<lparr>model = m, model_features = new_features, info = model_info\<rparr> \<and>
      (if target dataset_info = ''avg_sentiment'' \<or> target dataset_info = ''reliability_score''
       then \<exists>p w mse r2.
              m = GradientBoostingRegressor p w \<and>
              map_of (entries model_info) ''type'' = Some (PStr ''regression'') \<and>
              map_of (entries model_info) ''metrics'' =
                Some (PDict [(''mse'', PFloat mse), (''r2'', PFloat r2)])
       else \<exists>p q w accuracy f1 y_test y_pred.
              m = RandomForestClassifier p q w \<and>
              map_of (entries model_info) ''type'' = Some (PStr ''classification'') \<and>
              map_of (entries model_info) ''metrics'' =
                Some (PDict [(''accuracy'', PFloat accuracy), (''f1'', PFloat f1)]) \<and>
              f1_score sk y_test y_pred ''weighted'' 0 = Inr f1)"
    by (intro exI [of _ dataset_info] exI [of _ m]) simp
qed

lemma demo_regression_fit:
  "\<exists>i. fit_and_evaluate demo_sklearn small_network_table ''reliability_score'' [''signal_strength'']
      = Inr (half_regressor, i)"
  by (simp add: fit_and_evaluate_def row_values_def and_then_def small_network_table_def
      demo_sklearn_def zero_scaler_def bounded_score_targets_def train_regressor_def
      half_regressor_def)

lemma demo_classification_fit:
  "\<exists>i. fit_and_evaluate demo_sklearn small_social_table ''activity_level'' [''total_posts'']
      = Inr (one_classifier, i)"
  by (simp add: fit_and_evaluate_def row_values_def and_then_def small_social_table_def
      demo_sklearn_def zero_scaler_def bounded_score_targets_def train_classifier_def
      one_classifier_def)

text \<open>
  The theorem at two successful runs: the network data set (target
  \<^verbatim>\<open>reliability_score\<close>) gives a regression bundle, the social data set (target
  \<^verbatim>\<open>activity_level\<close>) a classification bundle.
\<close>

theorem task_kind_by_target_name_witness:
  "(\<exists>i s b. train_model demo_sklearn demo_enhancer small_network_table ''network''
        [''signal_strength''] = (Inr (ModelInfo i), s) \<and>
      map_of (entries i) ''type'' = Some (PStr ''regression'') \<and>
      models s ''network'' = Some b \<and> \<not> has_predict_proba (model b)) \<and>
   (\<exists>i s b. train_model demo_sklearn demo_enhancer small_social_table ''social''
        [''total_posts''] = (Inr (ModelInfo i), s) \<and>
      map_of (entries i) ''type'' = Some (PStr ''classification'') \<and>
      models s ''social'' = Some b \<and> has_predict_proba (model b))"
proof -
  from demo_regression_fit obtain i1 where
    "fit_and_evaluate demo_sklearn small_network_table ''reliability_score'' [''signal_strength'']
      = Inr (half_regressor, i1)"
    by blast
  then obtain s1 where run1: "train_model demo_sklearn demo_enhancer small_network_table ''network''
        [''signal_strength''] = (Inr (ModelInfo i1), s1)"
    by (simp add: train_model_def demo_enhancer_def network_config_def small_network_table_def
        columns_def)
  from demo_classification_fit obtain i2 where
    "fit_and_evaluate demo_sklearn small_social_table ''activity_level'' [''total_posts'']
      = Inr (one_classifier, i2)"
    by blast
  then obtain s2 where run2: "train_model demo_sklearn demo_enhancer small_social_table ''social''
        [''total_posts''] = (Inr (ModelInfo i2), s2)"
    by (simp add: train_model_def demo_enhancer_def social_config_def small_social_table_def
        columns_def)
  have cfg1: "datasets demo_enhancer ''network'' = Some network_config"
    and cfg2: "datasets demo_enhancer ''social'' = Some social_config"
    by (simp_all add: demo_enhancer_def)
  have t1: "target network_config = ''reliability_score''"
    and t2: "target social_config \<noteq> ''avg_sentiment'' \<and> target social_config \<noteq> ''reliability_score''"
    by (simp_all add: network_config_def social_config_def)
  from task_kind_by_target_name
    [of demo_sklearn demo_enhancer small_network_table "''network''" "[''signal_strength'']" i1 s1]
    run1 cfg1 t1
  have r1: "\<exists>b. map_of (entries i1) ''type'' = Some (PStr ''regression'') \<and>
      models s1 ''network'' = Some b \<and> \<not> has_predict_proba (model b)"
    by auto
  from task_kind_by_target_name
    [of demo_sklearn demo_enhancer small_social_table "''social''" "[''total_posts'']" i2 s2]
    run2 cfg2 t2
  have r2: "\<exists>b. map_of (entries i2) ''type'' = Some (PStr ''classification'') \<and>
      models s2 ''social'' = Some b \<and> has_predict_proba (model b)"
    by auto
  from run1 r1 run2 r2 show ?thesis by blast
qed

lemma load_model_failure: "fst (load_model fs self dataset_type) = False \<Longrightarrow>
   snd (load_model fs self dataset_type) = self"
  by (auto simp: load_model_def split: if_splits sum.splits)

lemma load_model_twice:
  "load_model fs (snd (load_model fs self dataset_type)) dataset_type =
   load_model fs self dataset_type"
  by (auto simp: load_model_def split: sum.splits)

text \<open>
  Claim C6, amended. \<^verbatim>\<open>load_model\<close> returns \<^verbatim>\<open>False\<close> and leaves the enhancer as it
  was unless the model file, the scaler file and the metadata file all exist. When
  all three exist and can be read (both joblib files load, the metadata decodes and
  has \<^verbatim>\<open>features\<close> and \<^verbatim>\<open>info\<close>) it returns \<^verbatim>\<open>True\<close> and registers the bundle made of
  the loaded model, the feature list, and the info with the loaded scaler. Whenever
  it returns \<^verbatim>\<open>False\<close> the enhancer is unchanged, and loading a second time gives the
  same result and the same enhancer as loading once.
\<close>

theorem load_model_all_or_nothing:
  "(\<not> artifacts_exist fs dataset_type \<longrightarrow> load_model fs self dataset_type = (False, self)) \<and>
   (fs (model_path dataset_type) = Some (Joblib m) \<and>
    fs (scaler_path dataset_type) = Some (Joblib s) \<and>
    fs (metadata_path dataset_type) = Some (MetadataJson (Some feature_list) (Some i)) \<longrightarrow>
      load_model fs self dataset_type =
        (True, self\<lparr>models := (models self)(dataset_type \<mapsto>
           \<lparr>model = m, model_features = feature_list,
            info = \<lparr>entries = filter (\<lambda>kv. fst kv \<noteq> ''scaler'') i, scaler = s\<rparr>\<rparr>)\<rparr>)) \<and>
   (fst (load_model fs self dataset_type) = False \<longrightarrow>
      snd (load_model fs self dataset_type) = self) \<and>
   load_model fs (snd (load_model fs self dataset_type)) dataset_type =
     load_model fs self dataset_type"
proof (intro conjI impI)
  assume "\<not> artifacts_exist fs dataset_type"
  then show "load_model fs self dataset_type = (False, self)"
    by (simp add: load_model_def)
next
  assume a: "fs (model_path dataset_type) = Some (Joblib m) \<and>
    fs (scaler_path dataset_type) = Some (Joblib s) \<and>
    fs (metadata_path dataset_type) = Some (MetadataJson (Some feature_list) (Some i))"
  then have "artifacts_exist fs dataset_type"
    by (simp add: artifacts_exist_def)
  moreover from a have "load_bundle fs dataset_type =
      Inr \<lparr>model = m, model_features = feature_list,
           info = \<lparr>entries = filter (\<lambda>kv. fst kv \<noteq> ''scaler'') i, scaler = s\<rparr>\<rparr>"
    by (simp add: load_bundle_def joblib_load_def json_load_def and_then_def)
  ultimately show "load_model fs self dataset_type =
        (True, self\<lparr>models := (models self)(dataset_type \<mapsto>
           \<lparr>model = m, model_features = feature_list,
            info = \<lparr>entries = filter (\<lambda>kv. fst kv \<noteq> ''scaler'') i, scaler = s\<rparr>\<rparr>)\<rparr>)"
    by (simp add: load_model_def)
next
  assume "fst (load_model fs self dataset_type) = False"
  then show "snd (load_model fs self dataset_type) = self"
    by (rule load_model_failure)
next
  show "load_model fs (snd (load_model fs self dataset_type)) dataset_type =
     load_model fs self dataset_type"
    by (rule load_model_twice)
qed

lemma paths_differ:
  "model_path d \<noteq> scaler_path d" "model_path d \<noteq> metadata_path d"
  "scaler_path d \<noteq> metadata_path d"
proof -
  have len: "length (model_path d) = length (scaler_path d) - 1"
    by (simp add: model_path_def scaler_path_def)
  have "last (model_path d) = CHR ''b''" "last (scaler_path d) = CHR ''b''"
    "last (metadata_path d) = CHR ''n''"
    by (simp_all add: model_path_def scaler_path_def metadata_path_def)
  then show "model_path d \<noteq> metadata_path d" "scaler_path d \<noteq> metadata_path d"
    by auto
  from len show "model_path d \<noteq> scaler_path d"
    by (auto simp: scaler_path_def)
qed

text \<open>
  The theorem at a directory written by \<^verbatim>\<open>save_model\<close> and at an empty directory.
\<close>

theorem load_model_all_or_nothing_witness:
  "load_model saved_files demo_enhancer ''network'' =
     (True, demo_enhancer\<lparr>models := (models demo_enhancer)(''network'' \<mapsto>
        \<lparr>model = half_regressor, model_features = [''signal_strength''],
         info = \<lparr>entries = [(''type'', PStr ''regression'')], scaler = zero_scaler\<rparr>\<rparr>)\<rparr>) \<and>
   load_model Map.empty demo_enhancer ''network'' = (False, demo_enhancer)"
proof -
  have files: "saved_files (model_path ''network'') = Some (Joblib half_regressor) \<and>
      saved_files (scaler_path ''network'') = Some (Joblib zero_scaler) \<and>
      saved_files (metadata_path ''network'') =
        Some (MetadataJson (Some [''signal_strength'']) (Some [(''type'', PStr ''regression'')]))"
    using paths_differ [of "''network''"] by (simp add: saved_files_def)
  have none: "\<not> artifacts_exist Map.empty ''network''"
    by (simp add: artifacts_exist_def)
  from load_model_all_or_nothing
    [of saved_files "''network''" demo_enhancer half_regressor zero_scaler "[''signal_strength'']"
      "[(''type'', PStr ''regression'')]"] files
  have a: "load_model saved_files demo_enhancer ''network'' =
     (True, demo_enhancer\<lparr>models := (models demo_enhancer)(''network'' \<mapsto>
        \<lparr>model = half_regressor, model_features = [''signal_strength''],
         info = \<lparr>entries = [(''type'', PStr ''regression'')], scaler = zero_scaler\<rparr>\<rparr>)\<rparr>)"
    by simp
  from load_model_all_or_nothing [of Map.empty "''network''" demo_enhancer] none
  have b: "load_model Map.empty demo_enhancer ''network'' = (False, demo_enhancer)"
    by blast
  from a b show ?thesis by (rule conjI)
qed

text \<open>
  Claim C6 as stated fails: the three files exist, the metadata cannot be decoded,
  and \<^verbatim>\<open>load_model\<close> returns \<^verbatim>\<open>False\<close> without registering a bundle.
\<close>

theorem load_model_unreadable_metadata:
  "artifacts_exist broken_files ''network'' \<and>
   load_model broken_files demo_enhancer ''network'' = (False, demo_enhancer)"
proof -
  have files: "broken_files (model_path ''network'') = Some (Joblib half_regressor)"
      "broken_files (scaler_path ''network'') = Some (Joblib zero_scaler)"
      "broken_files (metadata_path ''network'') = Some Unreadable"
    using paths_differ [of "''network''"] by (simp_all add: broken_files_def)
  then have e: "artifacts_exist broken_files ''network''"
    by (simp add: artifacts_exist_def)
  from files have "load_bundle broken_files ''network'' = Inl ValueError"
    by (simp add: load_bundle_def joblib_load_def json_load_def and_then_def)
  with e show ?thesis
    by (simp add: load_model_def)
qed

lemma array_max_is_Max:
  assumes "array_max xs = Inr c"
  shows "xs \<noteq> [] \<and> c = Max (set xs)"
proof (cases xs)
  case Nil
  with assms show ?thesis by (simp add: array_max_def)
next
  case (Cons x rest)
  with assms have "c = fold max rest x" by (simp add: array_max_def)
  also have "\<dots> = Max (set (x # rest))"
    by (rule Max.set_eq_fold [symmetric])
  finally show ?thesis
    using Cons by simp
qed

lemma run_model_confidence:
  assumes "run_model model_data input_data = Inr (p, confidence)"
  shows "(if has_predict_proba (model model_data)
          then \<exists>X proba rest c. model_predict_proba (model model_data) X = Inr (proba # rest) \<and>
                 array_max proba = Inr c \<and> confidence = Some c
          else confidence = None)"
proof (cases "has_predict_proba (model model_data)")
  case False
  with assms show ?thesis
    unfolding run_model_def by (auto dest!: and_then_Inr)
next
  case True
  with assms obtain X probas proba c where
    "model_predict_proba (model model_data) X = Inr probas" and
    "first_of probas = Inr proba" and "array_max proba = Inr c" and "confidence = Some c"
    unfolding run_model_def by (auto dest!: and_then_Inr)
  moreover from this obtain rest where "probas = proba # rest"
    by (cases probas) (simp_all add: first_of_def)
  ultimately show ?thesis
    using True by auto
qed

lemma predict_success:
  assumes "predict fs self dataset_type input_data = (Prediction p confidence, self')"
  shows "\<exists>model_data. models self' dataset_type = Some model_data \<and>
     run_model model_data input_data = Inr (p, confidence)"
  using assms unfolding predict_def Let_def
  by (auto split: if_splits prod.splits option.splits sum.splits)

text \<open>
  Claim C7. When \<^verbatim>\<open>predict\<close> returns a prediction, a bundle is registered for the
  dataset type and the confidence is present exactly when its model has
  \<^verbatim>\<open>predict_proba\<close>: a gradient boosting regressor gives no confidence; a confidence
  comes from a random forest classifier and is the largest entry of the first row its
  \<^verbatim>\<open>predict_proba\<close> returned, so it lies in [0, 1] as the class probabilities do.
\<close>

theorem confidence_only_with_probabilities:
  "predict fs self dataset_type input_data = (Prediction p confidence, self') \<longrightarrow>
   (\<exists>model_data.
      models self' dataset_type = Some model_data \<and>
      (confidence \<noteq> None \<longleftrightarrow> has_predict_proba (model model_data)) \<and>
      ((\<exists>f w. model model_data = GradientBoostingRegressor f w) \<longrightarrow> confidence = None) \<and>
      (\<forall>c. confidence = Some c \<longrightarrow>
         (\<exists>f q w X proba rest.
            model model_data = RandomForestClassifier f q w \<and> q X = Inr (proba # rest) \<and>
            proba \<noteq> [] \<and> c = Max (set proba) \<and>
            ((\<forall>x \<in> set proba. 0 \<le> x \<and> x \<le> 1) \<longrightarrow> 0 \<le> c \<and> c \<le> 1))))"
proof
  assume run: "predict fs self dataset_type input_data = (Prediction p confidence, self')"
  from predict_success [OF run] obtain model_data where
    reg: "models self' dataset_type = Some model_data" and
    rm: "run_model model_data input_data = Inr (p, confidence)"
    by blast
  note conf = run_model_confidence [OF rm]
  have iff: "confidence \<noteq> None \<longleftrightarrow> has_predict_proba (model model_data)"
    using conf by (auto split: if_splits)
  have reg_none: "(\<exists>f w. model model_data = GradientBoostingRegressor f w) \<longrightarrow> confidence = None"
    using conf by (auto split: if_splits)
  have some: "\<forall>c. confidence = Some c \<longrightarrow>
         (\<exists>f q w X proba rest.
            model model_data = RandomForestClassifier f q w \<and> q X = Inr (proba # rest) \<and>
            proba \<noteq> [] \<and> c = Max (set proba) \<and>
            ((\<forall>x \<in> set proba. 0 \<le> x \<and> x \<le> 1) \<longrightarrow> 0 \<le> c \<and> c \<le> 1))"
  proof (intro allI impI)
    fix c
    assume c: "confidence = Some c"
    with conf obtain X proba rest where
      hp: "has_predict_proba (model model_data)" and
      pp: "model_predict_proba (model model_data) X = Inr (proba # rest)" and
      mx: "array_max proba = Inr c"
      by (auto split: if_splits)
    from hp obtain f q w where m: "model model_data = RandomForestClassifier f q w"
      by (cases "model model_data") simp_all
    from array_max_is_Max [OF mx] have ne: "proba \<noteq> []" and cm: "c = Max (set proba)"
      by simp_all
    from ne cm have "c \<in> set proba"
      by (metis List.finite_set Max_in set_empty)
    then have "(\<forall>x \<in> set proba. 0 \<le> x \<and> x \<le> 1) \<longrightarrow> 0 \<le> c \<and> c \<le> 1"
      by blast
    with m pp ne cm show "\<exists>f q w X proba rest.
            model model_data = RandomForestClassifier f q w \<and> q X = Inr (proba # rest) \<and>
            proba \<noteq> [] \<and> c = Max (set proba) \<and>
            ((\<forall>x \<in> set proba. 0 \<le> x \<and> x \<le> 1) \<longrightarrow> 0 \<le> c \<and> c \<le> 1)"
      by (intro exI [of _ f] exI [of _ q] exI [of _ w] exI [of _ X] exI [of _ proba]
          exI [of _ rest]) simp
  qed
  from reg iff reg_none some show "\<exists>model_data.
      models self' dataset_type = Some model_data \<and>
      (confidence \<noteq> None \<longleftrightarrow> has_predict_proba (model model_data)) \<and>
      ((\<exists>f w. model model_data = GradientBoostingRegressor f w) \<longrightarrow> confidence = None) \<and>
      (\<forall>c. confidence = Some c \<longrightarrow>
         (\<exists>f q w X proba rest.
            model model_data = RandomForestClassifier f q w \<and> q X = Inr (proba # rest) \<and>
            proba \<noteq> [] \<and> c = Max (set proba) \<and>
            ((\<forall>x \<in> set proba. 0 \<le> x \<and> x \<le> 1) \<longrightarrow> 0 \<le> c \<and> c \<le> 1)))"
    by (intro exI [of _ model_data] conjI)
qed

lemma demo_classifier_run:
  "predict Map.empty classifier_enhancer ''social'' [(''total_posts'', PInt 3)] =
     (Prediction (PFloat 1) (Some (7/10)), classifier_enhancer)"
  by (simp add: predict_def classifier_enhancer_def classifier_bundle_def run_model_def
      and_then_def zero_scaler_def one_classifier_def first_of_def array_max_def input_row_def)

lemma demo_regressor_run:
  "\<exists>s. predict saved_files demo_enhancer ''network'' [(''signal_strength'', PInt 80)] =
     (Prediction (PFloat (1/2)) None, s)"
proof -
  have files: "saved_files (model_path ''network'') = Some (Joblib half_regressor) \<and>
      saved_files (scaler_path ''network'') = Some (Joblib zero_scaler) \<and>
      saved_files (metadata_path ''network'') =
        Some (MetadataJson (Some [''signal_strength'']) (Some [(''type'', PStr ''regression'')]))"
    using paths_differ [of "''network''"] by (simp add: saved_files_def)
  then have "load_bundle saved_files ''network'' =
      Inr \<lparr>model = half_regressor, model_features = [''signal_strength''],
           info = \<lparr>entries = [(''type'', PStr ''regression'')], scaler = zero_scaler\<rparr>\<rparr>"
    by (simp add: load_bundle_def joblib_load_def json_load_def and_then_def)
  moreover from files have "artifacts_exist saved_files ''network''"
    by (simp add: artifacts_exist_def)
  ultimately show ?thesis
    by (simp add: predict_def load_model_def demo_enhancer_def run_model_def and_then_def
        zero_scaler_def half_regressor_def first_of_def input_row_def)
qed

text \<open>
  The theorem at a registered classifier (confidence 0.7, the larger of 0.3 and 0.7)
  and at a regressor loaded from disk (no confidence).
\<close>

theorem confidence_only_with_probabilities_witness:
  "(\<exists>s model_data.
      predict Map.empty classifier_enhancer ''social'' [(''total_posts'', PInt 3)] =
        (Prediction (PFloat 1) (Some (7/10)), s) \<and>
      models s ''social'' = Some model_data \<and> has_predict_proba (model model_data)) \<and>
   (\<exists>s model_data.
      predict saved_files demo_enhancer ''network'' [(''signal_strength'', PInt 80)] =
        (Prediction (PFloat (1/2)) None, s) \<and>
      models s ''network'' = Some model_data \<and> \<not> has_predict_proba (model model_data))"
proof -
  from confidence_only_with_probabilities
    [of Map.empty classifier_enhancer "''social''" "[(''total_posts'', PInt 3)]" "PFloat 1"
      "Some (7/10)" classifier_enhancer] demo_classifier_run
  have a: "\<exists>model_data. models classifier_enhancer ''social'' = Some model_data \<and>
      has_predict_proba (model model_data)"
    by auto
  from demo_regressor_run obtain s where
    run: "predict saved_files demo_enhancer ''network'' [(''signal_strength'', PInt 80)] =
     (Prediction (PFloat (1/2)) None, s)"
    by blast
  from confidence_only_with_probabilities
    [of saved_files demo_enhancer "''network''" "[(''signal_strength'', PInt 80)]" "PFloat (1/2)"
      None s] run
  have b: "\<exists>model_data. models s ''network'' = Some model_data \<and>
      \<not> has_predict_proba (model model_data)"
    by auto
  from a demo_classifier_run b run show ?thesis
    by blast
qed

section \<open>Enhancement of a location: skip and stamp\<close>

lemma map_of_dict_set:
  "map_of (dict_set d k v) k' = (if k' = k then Some v else map_of d k')"
  by (induction d) auto

lemma set_in_section_other:
  "set_in_section e section kvs = Inr e' \<Longrightarrow> k \<noteq> section \<Longrightarrow> map_of e' k = map_of e k"
  by (auto simp: set_in_section_def map_of_dict_set split: option.splits pyval.splits)

lemma enhance_section_other:
  assumes "enhance_section fs section dt derive field self ld e = Inr (e', self')"
    and "k \<noteq> section"
  shows "map_of e' k = map_of e k"
  using assms unfolding enhance_section_def
  by (auto dest!: and_then_Inr dest: set_in_section_other
      split: option.splits if_splits prod.splits prediction_result.splits)

lemma enhance_section_skip:
  assumes "enhance_section fs section dt derive field self ld e = Inr (e', self')"
    and "map_of ld section = Some sec" and "datasets self dt = Some dataset_info"
    and "derive sec = Inr derived"
    and "\<not> all_present (filter_none derived) (features dataset_info)"
  shows "e' = e \<and> self' = self"
  using assms unfolding enhance_section_def
  by (auto simp: and_then_def)

lemma load_model_datasets: "datasets (snd (load_model fs self dt)) = datasets self"
  by (auto simp: load_model_def split: sum.splits)

lemma predict_datasets: "datasets (snd (predict fs self dt inp)) = datasets self"
proof (cases "models self dt \<noteq> None")
  case True
  then show ?thesis
    by (auto simp: predict_def split: option.splits sum.splits prod.splits)
next
  case False
  obtain ok s1 where l: "load_model fs self dt = (ok, s1)"
    by (cases "load_model fs self dt")
  with load_model_datasets [of fs self dt] have "datasets s1 = datasets self" by simp
  with False l show ?thesis
    by (auto simp: predict_def split: option.splits sum.splits prod.splits)
qed

lemma enhance_section_datasets:
  assumes "enhance_section fs section dt derive field self ld e = Inr (e', self')"
  shows "datasets self' = datasets self"
proof -
  have p: "datasets s = datasets self" if "predict fs self dt inp = (r, s)" for inp r s
    using predict_datasets [of fs self dt inp] that by simp
  from assms show ?thesis
    unfolding enhance_section_def
    by (auto dest!: and_then_Inr dest: p
        split: option.splits if_splits prod.splits prediction_result.splits)
qed

lemma enhance_section_total:
  assumes "\<And>sec. map_of ld section = Some sec \<Longrightarrow>
      (\<exists>d. derive sec = Inr d) \<and> (\<exists>dd. map_of e section = Some (PDict dd))"
  shows "\<exists>e' self'. enhance_section fs section dt derive field self ld e = Inr (e', self')"
proof (cases "map_of ld section")
  case None
  then show ?thesis by (simp add: enhance_section_def)
next
  case (Some sec)
  from assms [OF Some] obtain d dd where d: "derive sec = Inr d"
    and dd: "map_of e section = Some (PDict dd)"
    by blast
  obtain r s where p: "predict fs self dt (filter_none d) = (r, s)"
    by (cases "predict fs self dt (filter_none d)")
  show ?thesis
    using Some d dd p
    by (cases r)
       (auto simp: enhance_section_def and_then_def set_in_section_def split: option.splits)
qed

lemma network_input_total: "is_dict conn \<Longrightarrow> \<exists>d. network_input conn = Inr d"
  by (cases conn) (simp_all add: network_input_def py_get_def and_then_def)

lemma times_total:
  "is_volume v \<Longrightarrow> (\<exists>a. times_int v n = Inr a) \<and> (\<exists>b. times_float v r = Inr b)"
  by (cases v) (simp_all add: times_int_def times_float_def int_to_float_def and_then_def)

lemma social_input_overflow:
  "\<not> fits_float i \<Longrightarrow> social_input (PDict [(''volume'', PInt i)]) = Inl OverflowError"
  by (simp add: social_input_def py_get_def dict_get_def and_then_def times_int_def
      times_float_def int_to_float_def)

lemma social_input_total:
  assumes "case map_of s ''volume'' of None \<Rightarrow> True | Some v \<Rightarrow> is_volume v"
  shows "\<exists>d. social_input (PDict s) = Inr d"
proof -
  have "is_volume (dict_get s ''volume'' (PInt 0))"
    using assms by (simp add: dict_get_def fits_float_def split: option.splits)
  from times_total [OF this] obtain a b c where
    "times_int (dict_get s ''volume'' (PInt 0)) 5 = Inr a"
    "times_float (dict_get s ''volume'' (PInt 0)) (3/10) = Inr b"
    "times_float (dict_get s ''volume'' (PInt 0)) (7/10) = Inr c"
    by blast
  then show ?thesis
    by (simp add: social_input_def py_get_def and_then_def)
qed

lemma enhance_total:
  assumes "location_typed ld"
  shows "\<exists>e s. enhance_location_data fs now_iso self ld = Inr (e, s)"
proof -
  have "\<exists>e1 s1. enhance_section fs ''connectivity'' ''network'' network_input ''reliability_score''
      self ld ld = Inr (e1, s1)"
  proof (rule enhance_section_total)
    fix sec
    assume sec: "map_of ld ''connectivity'' = Some sec"
    with assms have "is_dict sec" by (simp add: location_typed_def)
    then show "(\<exists>d. network_input sec = Inr d) \<and> (\<exists>dd. map_of ld ''connectivity'' = Some (PDict dd))"
      using sec network_input_total [of sec] by (cases sec) simp_all
  qed
  then obtain e1 s1 where
    one: "enhance_section fs ''connectivity'' ''network'' network_input ''reliability_score''
      self ld ld = Inr (e1, s1)"
    by blast
  have same: "map_of e1 ''social'' = map_of ld ''social''"
    using one by (rule enhance_section_other) simp
  have "\<exists>e2 s2. enhance_section fs ''social'' ''social'' social_input ''enhanced_sentiment''
      s1 ld e1 = Inr (e2, s2)"
  proof (rule enhance_section_total)
    fix sec
    assume sec: "map_of ld ''social'' = Some sec"
    with assms obtain s where s: "sec = PDict s"
      and v: "case map_of s ''volume'' of None \<Rightarrow> True | Some v \<Rightarrow> is_volume v"
      by (cases sec) (simp_all add: location_typed_def)
    from social_input_total [OF v] s sec same
    show "(\<exists>d. social_input sec = Inr d) \<and> (\<exists>dd. map_of e1 ''social'' = Some (PDict dd))"
      by simp
  qed
  then obtain e2 s2 where
    two: "enhance_section fs ''social'' ''social'' social_input ''enhanced_sentiment''
      s1 ld e1 = Inr (e2, s2)"
    by blast
  show ?thesis
    by (simp add: enhance_location_data_def one two and_then_def)
qed

text \<open>
  Claim C3. For a location whose sections are typed as the code expects
  (\<^verbatim>\<open>connectivity\<close> and \<^verbatim>\<open>social\<close> are dictionaries when present, and the social
  \<^verbatim>\<open>volume\<close> is a number that converts to a float: an integer beyond the float range
  makes \<^verbatim>\<open>volume * 0.3\<close> raise \<^verbatim>\<open>OverflowError\<close>, which nothing catches),
  \<^verbatim>\<open>enhance_location_data\<close> returns an entity. Every entity it returns has
  \<^verbatim>\<open>enhanced_by_deepmind\<close> set to \<^verbatim>\<open>True\<close> and \<^verbatim>\<open>enhancement_timestamp\<close> set to the
  ISO-8601 text of the clock, whatever the two blocks did. If a feature the network
  configuration requires is absent from the mapping derived from \<^verbatim>\<open>connectivity\<close>
  after the \<^verbatim>\<open>None\<close> values are dropped, the \<^verbatim>\<open>connectivity\<close> section of the result
  is the one of the input: no prediction field is added. The same holds for the
  social configuration and the \<^verbatim>\<open>social\<close> section.
\<close>

theorem skip_and_stamp:
  "(location_typed location_data \<longrightarrow>
      (\<exists>enhanced self'. enhance_location_data fs now_iso self location_data = Inr (enhanced, self'))) \<and>
   (\<forall>enhanced self'.
      enhance_location_data fs now_iso self location_data = Inr (enhanced, self') \<longrightarrow>
        map_of enhanced ''enhanced_by_deepmind'' = Some (PBool True) \<and>
        map_of enhanced ''enhancement_timestamp'' = Some (PStr now_iso) \<and>
        (\<forall>connectivity dataset_info derived.
           map_of location_data ''connectivity'' = Some connectivity \<and>
           datasets self ''network'' = Some dataset_info \<and>
           network_input connectivity = Inr derived \<and>
           \<not> all_present (filter_none derived) (features dataset_info) \<longrightarrow>
             map_of enhanced ''connectivity'' = Some connectivity) \<and>
        (\<forall>social dataset_info derived.
           map_of location_data ''social'' = Some social \<and>
           datasets self ''social'' = Some dataset_info \<and>
           social_input social = Inr derived \<and>
           \<not> all_present (filter_none derived) (features dataset_info) \<longrightarrow>
             map_of enhanced ''social'' = Some social))"
proof (intro conjI allI impI)
  assume "location_typed location_data"
  then show "\<exists>enhanced self'. enhance_location_data fs now_iso self location_data = Inr (enhanced, self')"
    by (rule enhance_total)
next
  fix enhanced self'
  assume run: "enhance_location_data fs now_iso self location_data = Inr (enhanced, self')"
  then obtain e1 s1 e2 where
    one: "enhance_section fs ''connectivity'' ''network'' network_input ''reliability_score''
      self location_data location_data = Inr (e1, s1)" and
    two: "enhance_section fs ''social'' ''social'' social_input ''enhanced_sentiment''
      s1 location_data e1 = Inr (e2, self')" and
    stamp: "enhanced = dict_set (dict_set e2 ''enhanced_by_deepmind'' (PBool True))
              ''enhancement_timestamp'' (PStr now_iso)"
    unfolding enhance_location_data_def
    by (auto dest!: and_then_Inr split: prod.splits)
  show "map_of enhanced ''enhanced_by_deepmind'' = Some (PBool True)"
    and "map_of enhanced ''enhancement_timestamp'' = Some (PStr now_iso)"
    by (simp_all add: stamp map_of_dict_set)
  have conn: "map_of enhanced ''connectivity'' = map_of e1 ''connectivity''"
    using enhance_section_other [OF two, of "''connectivity''"]
    by (simp add: stamp map_of_dict_set)
  have soc: "map_of enhanced ''social'' = map_of e2 ''social''"
    by (simp add: stamp map_of_dict_set)
  {
    fix connectivity dataset_info derived
    assume a: "map_of location_data ''connectivity'' = Some connectivity \<and>
           datasets self ''network'' = Some dataset_info \<and>
           network_input connectivity = Inr derived \<and>
           \<not> all_present (filter_none derived) (features dataset_info)"
    then have "e1 = location_data \<and> s1 = self"
      using enhance_section_skip [OF one, of connectivity dataset_info derived] by blast
    with conn a show "map_of enhanced ''connectivity'' = Some connectivity"
      by simp
  }
  {
    fix social dataset_info derived
    assume a: "map_of location_data ''social'' = Some social \<and>
           datasets self ''social'' = Some dataset_info \<and>
           social_input social = Inr derived \<and>
           \<not> all_present (filter_none derived) (features dataset_info)"
    have "datasets s1 = datasets self"
      using one by (rule enhance_section_datasets)
    with a have "e2 = e1 \<and> self' = s1"
      using enhance_section_skip [OF two, of social dataset_info derived] by simp
    moreover have "map_of e1 ''social'' = map_of location_data ''social''"
      using one by (rule enhance_section_other) simp
    ultimately show "map_of enhanced ''social'' = Some social"
      using soc a by simp
  }
qed

text \<open>
  The theorem at a location without signal strength and without a social volume:
  both blocks are skipped, both sections come back as they were, and the entity is
  stamped.
\<close>

theorem skip_and_stamp_witness:
  "\<exists>enhanced self'.
     enhance_location_data Map.empty ''2025-01-01T12:00:00'' demo_enhancer partial_location =
       Inr (enhanced, self') \<and>
     map_of enhanced ''enhanced_by_deepmind'' = Some (PBool True) \<and>
     map_of enhanced ''enhancement_timestamp'' = Some (PStr ''2025-01-01T12:00:00'') \<and>
     map_of enhanced ''connectivity'' = map_of partial_location ''connectivity'' \<and>
     map_of enhanced ''social'' = map_of partial_location ''social''"
proof -
  note inst = skip_and_stamp
    [of partial_location Map.empty "''2025-01-01T12:00:00''" demo_enhancer]
  have typed: "location_typed partial_location"
    by (simp add: location_typed_def partial_location_def)
  with inst obtain enhanced self' where
    run: "enhance_location_data Map.empty ''2025-01-01T12:00:00'' demo_enhancer partial_location =
       Inr (enhanced, self')"
    by blast
  have net: "map_of partial_location ''connectivity'' =
        Some (PDict [(''networkType'', PStr ''5G''), (''latency'', PInt 20)]) \<and>
      datasets demo_enhancer ''network'' = Some network_config \<and>
      network_input (PDict [(''networkType'', PStr ''5G''), (''latency'', PInt 20)]) =
        Inr [(''network_type'', PStr ''5G''), (''signal_strength'', PNone),
             (''download_speed'', PNone), (''latency'', PInt 20)] \<and>
      \<not> all_present (filter_none [(''network_type'', PStr ''5G''), (''signal_strength'', PNone),
             (''download_speed'', PNone), (''latency'', PInt 20)]) (features network_config)"
    by (simp add: partial_location_def demo_enhancer_def network_input_def py_get_def
        dict_get_def and_then_def all_present_def filter_none_def network_config_def)
  have soc: "map_of partial_location ''social'' = Some (PDict [(''sentiment'', PFloat (1/2))]) \<and>
      datasets demo_enhancer ''social'' = Some social_config \<and>
      social_input (PDict [(''sentiment'', PFloat (1/2))]) =
        Inr [(''total_posts'', PNone), (''total_likes'', PInt 0),
             (''total_retweets'', PFloat 0), (''unique_users'', PFloat 0)] \<and>
      \<not> all_present (filter_none [(''total_posts'', PNone), (''total_likes'', PInt 0),
             (''total_retweets'', PFloat 0), (''unique_users'', PFloat 0)]) (features social_config)"
    by (simp add: partial_location_def demo_enhancer_def social_input_def py_get_def
        dict_get_def and_then_def all_present_def filter_none_def social_config_def
        times_int_def times_float_def int_to_float_def fits_float_def)
  from inst run have all: "map_of enhanced ''enhanced_by_deepmind'' = Some (PBool True) \<and>
        map_of enhanced ''enhancement_timestamp'' = Some (PStr ''2025-01-01T12:00:00'') \<and>
        (\<forall>connectivity dataset_info derived.
           map_of partial_location ''connectivity'' = Some connectivity \<and>
           datasets demo_enhancer ''network'' = Some dataset_info \<and>
           network_input connectivity = Inr derived \<and>
           \<not> all_present (filter_none derived) (features dataset_info) \<longrightarrow>
             map_of enhanced ''connectivity'' = Some connectivity) \<and>
        (\<forall>social dataset_info derived.
           map_of partial_location ''social'' = Some social \<and>
           datasets demo_enhancer ''social'' = Some dataset_info \<and>
           social_input social = Inr derived \<and>
           \<not> all_present (filter_none derived) (features dataset_info) \<longrightarrow>
             map_of enhanced ''social'' = Some social)"
    by blast
  from all net have c: "map_of enhanced ''connectivity'' = map_of partial_location ''connectivity''"
    by metis
  from all soc have s: "map_of enhanced ''social'' = map_of partial_location ''social''"
    by metis
  from run all c s show ?thesis
    by blast
qed

end
